theory Spec2Isabelle
  imports Main "HOL-Library.Word"
begin

unbundle bit_operations_syntax

section \<open>Bytes and C strings\<close>

text \<open>
  A C \<open>char\<close> is an Isabelle \<^typ>\<open>char\<close> (a byte); a C string is a \<^typ>\<open>string\<close>
  without the terminating NUL. \<open>uint8_t\<close> is an 8-bit word; the cast of a
  \<open>char*\<close> buffer to \<open>const uint8_t*\<close> is \<open>map u8_of_char\<close>.
\<close>

type_synonym u8 = "8 word"

definition u8_of_char :: "char \<Rightarrow> u8" where
  "u8_of_char c = word_of_nat (of_char c)"

definition NUL :: char where
  "NUL = CHR 0x00"

definition LF :: char where
  "LF = CHR 0x0A"

section \<open>platform/posix/frameserver.c: the key comparison\<close>

text \<open>
  \<^verbatim>\<open>
  static bool memcmp_nodep(const void* s1, const void* s2, size_t n)
  {
      const uint8_t* p1 = s1; const uint8_t* p2 = s2;
      uint8_t diffv = 0;
      while (n--){ diffv |= *p1++ ^ *p2++; }
      return !(diffv != 0);
  }
  \<close>
  The two pointers walk the buffers, modelled as the lists of the bytes that remain in
  each. The loop returns the accumulator together with the number of iterations it ran,
  each of which reads one byte of either buffer. A read past the end of a buffer is
  undefined in C: the model returns \<open>None\<close> there.
\<close>

fun memcmp_nodep_loop :: "u8 list \<Rightarrow> u8 list \<Rightarrow> nat \<Rightarrow> u8 \<Rightarrow> nat \<Rightarrow> (u8 \<times> nat) option" where
  "memcmp_nodep_loop p1 p2 0 diffv iters = Some (diffv, iters)"
| "memcmp_nodep_loop (a # p1) (b # p2) (Suc n) diffv iters =
     memcmp_nodep_loop p1 p2 n (diffv OR (a XOR b)) (Suc iters)"
| "memcmp_nodep_loop _ _ (Suc n) diffv iters = None"

definition memcmp_nodep :: "u8 list \<Rightarrow> u8 list \<Rightarrow> nat \<Rightarrow> bool option" where
  "memcmp_nodep s1 s2 n =
     (case memcmp_nodep_loop s1 s2 n 0 0 of
        None \<Rightarrow> None
      | Some (diffv, iters) \<Rightarrow> Some (\<not> (diffv \<noteq> 0)))"

definition memcmp_nodep_iterations :: "u8 list \<Rightarrow> u8 list \<Rightarrow> nat \<Rightarrow> nat option" where
  "memcmp_nodep_iterations s1 s2 n =
     (case memcmp_nodep_loop s1 s2 n 0 0 of
        None \<Rightarrow> None
      | Some (diffv, iters) \<Rightarrow> Some iters)"

text \<open>
  The spec asks for the XOR differences accumulated over the full length. In its words,
  for the first \<open>n\<close> bytes of two buffers: the OR, over every pair of bytes at the same
  position, of the XOR of the pair.
\<close>

definition accumulated_xor_differences :: "u8 list \<Rightarrow> u8 list \<Rightarrow> nat \<Rightarrow> u8" where
  "accumulated_xor_differences s1 s2 n =
     fold (\<lambda>(a, b) diffv. diffv OR (a XOR b)) (zip (take n s1) (take n s2)) 0"

section \<open>platform/posix/frameserver.c: the producer record\<close>

text \<open>
  Constants that the headers of the repository fix at compile time, and the sizes
  of types declared there. The headers lie outside the two files modelled here, so every
  function takes them as a parameter.
\<close>

record platform =
  ARCAN_SHM_PREFIX :: string
  on_linux :: bool
  sun_path_size :: nat
  ARCAN_SHMPAGE_START_SZ :: nat
  ARCAN_SHM_UMASK :: nat
  ARCAN_VERSION_MAJOR :: int
  ARCAN_VERSION_MINOR :: int
  arcan_shmif_cookie :: nat
  ARCAN_SHMPAGE_MAXW :: int
  ARCAN_SHMPAGE_MAXH :: int
  ARCAN_SHMPAGE_AUDIOBUF_SZ :: nat
  PP_SHMPAGE_SHMKEYLIM :: nat
  message_size :: nat
  ARCAN_EID :: int

text \<open>The control header of \<open>struct arcan_shmif_page\<close>, as far as the code writes it.\<close>

record shmif_page =
  page_dms :: bool
  page_parent :: int
  page_major :: int
  page_minor :: int
  page_segment_size :: nat
  page_cookie :: nat
  page_w :: int
  page_h :: int

text \<open>
  \<open>arcan_event\<close>, with the fields the code sets: the category, the kind,
  \<open>data.target.ioevs[0].iv\<close>, \<open>data.target.ioevs[1].iv\<close> and
  \<open>data.target.message\<close>.
\<close>

datatype event_category = EVENT_TARGET | EVENT_EXTERNAL

datatype target_command = TARGET_COMMAND_FDTRANSFER | TARGET_COMMAND_NEWSEGMENT

record arcan_event =
  category :: event_category
  kind :: target_command
  ioevs0_iv :: int
  ioevs1_iv :: int
  message :: string

datatype segid = SEGID_UNKNOWN | SEGID_ENCODER

text \<open>
  The frame function installed for the video object of a record
  (\<open>arcan_video_addfobject\<close>, \<open>arcan_video_alterfeed\<close>): none yet, one of
  \<open>socketpoll\<close>, \<open>socketverify\<close>, \<open>arcan_frameserver_emptyframe\<close>, or none any
  more, after \<open>arcan_frameserver_free\<close>.
\<close>

datatype ffunc =
  Feed_none | Feed_socketpoll | Feed_socketverify | Feed_emptyframe | Feed_destroyed

text \<open>
  \<open>arcan_frameserver\<close>. The nested structs are flattened: \<open>shm.key\<close> is \<open>shm_key\<close>,
  \<open>flags.alive\<close> is \<open>flags_alive\<close>. A semaphore handle is the name it was opened
  under, an allocated buffer (\<open>audb\<close>) is its size, and the outbound event queue is
  the list of the events enqueued, oldest first. Two fields are not fields of the C
  struct: \<open>feed\<close> is the frame function of the video object \<open>vid\<close>, and
  \<open>sock_written\<close> records the bytes the host has written to \<open>sockout_fd\<close>.
\<close>

record arcan_frameserver =
  shm_key :: string
  shm_shmsize :: nat
  shm_handle :: int
  shm_ptr :: "shmif_page option"
  vsync :: "string option"
  async :: "string option"
  esync :: "string option"
  sockout_fd :: int
  sockaddr :: "string option"
  child :: int
  flags_alive :: bool
  flags_subsegment :: bool
  flags_pbo :: bool
  flags_socksig :: bool
  fsrv_segid :: segid
  source :: "string option"
  vid :: int
  aid :: "int option"
  desc_width :: int
  desc_height :: int
  launchedtime :: int
  queue_mask :: "event_category option"
  sz_audb :: nat
  ofs_audb :: nat
  audb :: "nat option"
  outqueue :: "arcan_event list"
  clientkey :: string
  sockinbuf :: string
  sockrofs :: nat
  feed :: ffunc
  sock_written :: string

section \<open>platform/posix/frameserver.c: system calls as a trace\<close>

text \<open>
  Every function that calls the operating system returns, next to its result, the list
  of the calls it made, in order. What a call returns is an input of the model.
  \<open>Dropsemaphores_keyed\<close> is the call of
  \<open>arcan_frameserver_dropsemaphores_keyed\<close>, a function of the repository that is
  defined outside the two files modelled here; the trace records its argument.
  \<open>Pushhandle fd sock\<close> is \<open>arcan_pushhandle(fd, sock)\<close>, the transfer of a
  descriptor over a socket, and
  \<open>Frameserver_free\<close> is \<open>arcan_frameserver_free\<close> called on a record that the
  caller then drops.
\<close>

datatype syscall =
    Sem_open string
  | Sem_unlink string
  | Shm_unlink string
  | Munmap nat
  | Socket
  | Fcntl_cloexec int
  | Close int
  | Unlink string
  | Bind int string
  | Fchmod int nat
  | Listen int nat
  | Ftruncate int nat
  | Mmap int nat
  | Dropsemaphores_keyed string
  | Socketpair
  | Pushhandle int int
  | Frameserver_free
  | Warning

text \<open>The names and descriptors that a trace opens, unlinks or closes, in order.\<close>

fun opened_semaphores :: "syscall list \<Rightarrow> string list" where
  "opened_semaphores [] = []"
| "opened_semaphores (Sem_open n # tr) = n # opened_semaphores tr"
| "opened_semaphores (c # tr) = opened_semaphores tr"

fun unlinked_semaphores :: "syscall list \<Rightarrow> string list" where
  "unlinked_semaphores [] = []"
| "unlinked_semaphores (Sem_unlink n # tr) = n # unlinked_semaphores tr"
| "unlinked_semaphores (c # tr) = unlinked_semaphores tr"

fun unlinked_shm :: "syscall list \<Rightarrow> string list" where
  "unlinked_shm [] = []"
| "unlinked_shm (Shm_unlink n # tr) = n # unlinked_shm tr"
| "unlinked_shm (c # tr) = unlinked_shm tr"

fun closed_fds :: "syscall list \<Rightarrow> int list" where
  "closed_fds [] = []"
| "closed_fds (Close fd # tr) = fd # closed_fds tr"
| "closed_fds (c # tr) = closed_fds tr"

text \<open>
  \<^verbatim>\<open>work[strlen(work) - 1] = c;\<close>
  On the empty string the index is \<open>SIZE_MAX\<close>, a write outside the buffer:
  undefined behaviour, \<open>None\<close> in the model.
\<close>

definition set_last_char :: "string \<Rightarrow> char \<Rightarrow> string option" where
  "set_last_char work c =
     (if length work = 0 then None else Some (work[length work - 1 := c]))"

text \<open>The view of a \<open>char\<close> buffer as a C string: the bytes before the first NUL.\<close>

definition cstr :: "string \<Rightarrow> string" where
  "cstr buf = takeWhile (\<lambda>c. c \<noteq> NUL) buf"

text \<open>\<open>s[0]\<close> of a string literal: the terminating NUL when the literal is empty.\<close>

definition first_char :: "string \<Rightarrow> char" where
  "first_char s = (case s of [] \<Rightarrow> NUL | c # cs \<Rightarrow> c)"

section \<open>platform/posix/frameserver.c: arcan\_frameserver\_dropshared\<close>

text \<open>
  \<^verbatim>\<open>
  if (!src) return;
  struct arcan_shmif_page* shmpage = src->shm.ptr;
  if (shmpage && -1 == munmap((void*) shmpage, src->shm.shmsize))
      arcan_warning(...);
  shm_unlink( src->shm.key );
  char* work = strdup(src->shm.key);
  work[strlen(work) - 1] = 'v'; sem_unlink(work);
  work[strlen(work) - 1] = 'a'; sem_unlink(work);
  work[strlen(work) - 1] = 'e'; sem_unlink(work);
  free(work);
  arcan_mem_free(src->shm.key);
  \<close>
  The result is the trace of the calls; \<open>munmap_rv\<close> is what \<open>munmap\<close> returns.
\<close>

definition arcan_frameserver_dropshared ::
    "int \<Rightarrow> arcan_frameserver option \<Rightarrow> syscall list option" where
  "arcan_frameserver_dropshared munmap_rv src =
     (case src of
        None \<Rightarrow> Some []
      | Some s \<Rightarrow>
          (let tr0 = (case shm_ptr s of
                        None \<Rightarrow> []
                      | Some shmpage \<Rightarrow>
                          Munmap (shm_shmsize s) # (if munmap_rv = - 1 then [Warning] else []));
               tr1 = tr0 @ [Shm_unlink (shm_key s)];
               work = shm_key s
           in case set_last_char work CHR ''v'' of None \<Rightarrow> None | Some work_v \<Rightarrow>
              (case set_last_char work_v CHR ''a'' of None \<Rightarrow> None | Some work_a \<Rightarrow>
              (case set_last_char work_a CHR ''e'' of None \<Rightarrow> None | Some work_e \<Rightarrow>
                 Some (tr1 @ [Sem_unlink work_v, Sem_unlink work_a, Sem_unlink work_e])))))"

section \<open>platform/posix/frameserver.c: shmalloc\<close>

text \<open>What the calls made by \<open>shmalloc\<close> return.\<close>

record shmalloc_calls =
  findshmkey_rv :: string
  findshmkey_fd :: int
  getenv_HOME :: "string option"
  socket_rv :: int
  bind_rv :: int
  ftruncate_rv :: int
  mmap_failed :: bool
  getpid_rv :: int

text \<open>
  Lines 267 to 273: the three semaphores.
  \<^verbatim>\<open>
  char* work = strdup(ctx->shm.key);
  work[strlen(work) - 1] = 'v'; ctx->vsync = sem_open(work, 0);
  work[strlen(work) - 1] = 'a'; ctx->async = sem_open(work, 0);
  work[strlen(work) - 1] = 'e'; ctx->esync = sem_open(work, 0);
  \<close>
  The result is the record, the final contents of \<open>work\<close> and the trace.
\<close>

definition shmalloc_semaphores ::
    "arcan_frameserver \<Rightarrow> (arcan_frameserver \<times> string \<times> syscall list) option" where
  "shmalloc_semaphores ctx =
     (let work = shm_key ctx
      in case set_last_char work CHR ''v'' of None \<Rightarrow> None | Some work_v \<Rightarrow>
         (case set_last_char work_v CHR ''a'' of None \<Rightarrow> None | Some work_a \<Rightarrow>
         (case set_last_char work_a CHR ''e'' of None \<Rightarrow> None | Some work_e \<Rightarrow>
            Some (ctx\<lparr>vsync := Some work_v, async := Some work_a, esync := Some work_e\<rparr>,
                  work_e,
                  [Sem_open work_v, Sem_open work_a, Sem_open work_e]))))"

text \<open>
  Lines 342 to 361: \<open>unlink\<close>, \<open>bind\<close>, \<open>fchmod\<close>, \<open>listen\<close>. \<open>path\<close> is what
  has been copied to the start of the zeroed \<open>addr.sun_path\<close>. \<open>Inl\<close> is
  \<open>goto fail\<close> with the trace so far.
\<close>

definition shmalloc_bind ::
    "platform \<Rightarrow> shmalloc_calls \<Rightarrow> arcan_frameserver \<Rightarrow> int \<Rightarrow> string \<Rightarrow> syscall list \<Rightarrow>
     syscall list + arcan_frameserver \<times> syscall list" where
  "shmalloc_bind P E ctx fd path tr =
     (if bind_rv E \<noteq> 0
      then Inl (tr @ [Unlink (cstr path), Bind fd path, Warning, Close fd])
      else Inr (ctx\<lparr>sockout_fd := fd, sockaddr := Some (cstr path)\<rparr>,
                tr @ [Unlink (cstr path), Bind fd path,
                      Fchmod fd (ARCAN_SHM_UMASK P), Listen fd 1]))"

text \<open>
  Lines 275 to 340: the named socket and its path. \<open>lim\<close> is
  \<open>sizeof(addr.sun_path) - 1\<close> and \<open>pref_sz\<close> is \<open>sizeof(ARCAN_SHM_PREFIX) - 1\<close>.
  The three cases of the prefix are in the order of the source: a prefix that starts
  with NUL on Linux, a prefix that does not start with \<open>/\<close> (relative to
  \<open>HOME\<close>), and an absolute prefix.
\<close>

definition shmalloc_namedsocket ::
    "platform \<Rightarrow> shmalloc_calls \<Rightarrow> arcan_frameserver \<Rightarrow> string option \<Rightarrow>
     syscall list + arcan_frameserver \<times> syscall list" where
  "shmalloc_namedsocket P E ctx optkey =
     (let lim = sun_path_size P - 1;
          prefix = ARCAN_SHM_PREFIX P;
          pref_sz = length prefix
      in case optkey of
           None \<Rightarrow> Inl [Warning]
         | Some k \<Rightarrow>
             (let optlen = length k
              in if optlen = 0 \<or> pref_sz + optlen > lim then Inl [Warning]
                 else
                   (let fd = socket_rv E
                    in if fd = - 1 then Inl [Socket, Warning]
                       else
                         (let tr = [Socket, Fcntl_cloexec fd]
                          in if on_linux P \<and> first_char prefix = NUL
                             then shmalloc_bind P E ctx fd (prefix @ k) tr
                             else if first_char prefix \<noteq> CHR ''/''
                             then (case getenv_HOME E of
                                     None \<Rightarrow> Inl (tr @ [Warning, Close fd])
                                   | Some auxp \<Rightarrow>
                                       (let envlen = length auxp
                                        in if envlen + optlen + pref_sz > lim
                                           then Inl (tr @ [Warning, Close fd])
                                           else shmalloc_bind P E ctx fd
                                                  (auxp @ ''/'' @ prefix @ k) tr))
                             else shmalloc_bind P E ctx fd (prefix @ k) tr))))"

text \<open>
  The label \<open>fail\<close>:
  \<^verbatim>\<open>
  fail:
      arcan_frameserver_dropsemaphores_keyed(work);
      free(work);
      return false;
  \<close>
\<close>

definition shmalloc_fail ::
    "arcan_frameserver \<Rightarrow> string \<Rightarrow> syscall list \<Rightarrow> bool \<times> arcan_frameserver \<times> syscall list" where
  "shmalloc_fail ctx work tr = (False, ctx, tr @ [Dropsemaphores_keyed work])"

text \<open>
  Lines 366 to 397: \<open>ftruncate\<close>, \<open>mmap\<close> and the control header. A failed
  \<open>ftruncate\<close> returns at once; a failed \<open>mmap\<close> runs into the label \<open>fail\<close>.
\<close>

definition shmalloc_map ::
    "platform \<Rightarrow> shmalloc_calls \<Rightarrow> arcan_frameserver \<Rightarrow> string \<Rightarrow> syscall list \<Rightarrow>
     bool \<times> arcan_frameserver \<times> syscall list" where
  "shmalloc_map P E ctx work tr =
     (let shmsize = ARCAN_SHMPAGE_START_SZ P;
          shmfd = findshmkey_fd E
      in if ftruncate_rv E = - 1
         then (False, ctx, tr @ [Ftruncate shmfd shmsize, Warning])
         else
           (let ctx1 = ctx\<lparr>shm_handle := shmfd\<rparr>;
                tr1 = tr @ [Ftruncate shmfd shmsize, Mmap shmfd shmsize]
            in if mmap_failed E
               then shmalloc_fail ctx1 work (tr1 @ [Warning])
               else (True,
                     ctx1\<lparr>shm_ptr := Some \<lparr>page_dms = True, page_parent = getpid_rv E,
                        page_major = ARCAN_VERSION_MAJOR P, page_minor = ARCAN_VERSION_MINOR P,
                        page_segment_size = shmsize, page_cookie = arcan_shmif_cookie P,
                        page_w = 0, page_h = 0\<rparr>\<rparr>,
                     tr1)))"

text \<open>
  \<open>shmalloc(ctx, namedsocket, optkey)\<close>. The key and the descriptor of the shared
  memory object come from \<open>arcan_findshmkey(&shmfd, true)\<close>. The result is what
  the function returns, the record and the trace; \<open>None\<close> is the undefined write
  of the semaphore suffix into an empty key.
\<close>

definition shmalloc ::
    "platform \<Rightarrow> shmalloc_calls \<Rightarrow> arcan_frameserver \<Rightarrow> bool \<Rightarrow> string option \<Rightarrow>
     (bool \<times> arcan_frameserver \<times> syscall list) option" where
  "shmalloc P E ctx namedsocket optkey =
     (case shmalloc_semaphores
             (ctx\<lparr>shm_key := findshmkey_rv E, shm_shmsize := ARCAN_SHMPAGE_START_SZ P\<rparr>) of
        None \<Rightarrow> None
      | Some (ctx1, work, tr) \<Rightarrow>
          Some (case (if namedsocket then shmalloc_namedsocket P E ctx1 optkey
                      else Inr (ctx1, [])) of
                  Inl tr2 \<Rightarrow> shmalloc_fail ctx1 work (tr @ tr2)
                | Inr (ctx2, tr2) \<Rightarrow> shmalloc_map P E ctx2 work (tr @ tr2)))"

section \<open>platform/posix/frameserver.c: arcan\_frameserver\_pushfd\<close>

text \<open>
  Modelled from the spec: \<open>arcan_event_enqueue\<close> and \<open>arcan_frameserver_pushevent\<close>
  are defined outside the two files modelled here. The spec says that every event enqueued on the outbound
  queue is observed by the producer in enqueue order: enqueueing appends to the queue, and
  pushing an event to a record enqueues it on the outbound queue of the record.
\<close>

definition arcan_event_enqueue :: "arcan_event list \<Rightarrow> arcan_event \<Rightarrow> arcan_event list" where
  "arcan_event_enqueue q ev = q @ [ev]"

definition arcan_frameserver_pushevent :: "arcan_frameserver \<Rightarrow> arcan_event \<Rightarrow> arcan_frameserver" where
  "arcan_frameserver_pushevent fsrv ev =
     fsrv\<lparr>outqueue := arcan_event_enqueue (outqueue fsrv) ev\<rparr>"

datatype arcan_errc = ARCAN_OK | ARCAN_ERRC_BAD_ARGUMENT

text \<open>
  \<^verbatim>\<open>
  if (!fsrv || fd == 0) return ARCAN_ERRC_BAD_ARGUMENT;
  if (arcan_pushhandle(fd, fsrv->sockout_fd)){
      arcan_event ev = { .category = EVENT_TARGET, .kind = TARGET_COMMAND_FDTRANSFER };
      arcan_frameserver_pushevent( fsrv, &ev );
      return ARCAN_OK;
  }
  arcan_warning(...);
  return ARCAN_ERRC_BAD_ARGUMENT;
  \<close>
  \<open>pushhandle_rv\<close> is what \<open>arcan_pushhandle\<close> returns.
\<close>

definition arcan_frameserver_pushfd ::
    "bool \<Rightarrow> arcan_frameserver option \<Rightarrow> int \<Rightarrow>
     arcan_errc \<times> arcan_frameserver option \<times> syscall list" where
  "arcan_frameserver_pushfd pushhandle_rv fsrv fd =
     (case fsrv of
        None \<Rightarrow> (ARCAN_ERRC_BAD_ARGUMENT, None, [])
      | Some f \<Rightarrow>
          if fd = 0 then (ARCAN_ERRC_BAD_ARGUMENT, Some f, [])
          else if pushhandle_rv
          then (ARCAN_OK,
                Some (arcan_frameserver_pushevent f
                  \<lparr>category = EVENT_TARGET, kind = TARGET_COMMAND_FDTRANSFER,
                   ioevs0_iv = 0, ioevs1_iv = 0, message = []\<rparr>),
                [Pushhandle fd (sockout_fd f)])
          else (ARCAN_ERRC_BAD_ARGUMENT, Some f, [Pushhandle fd (sockout_fd f), Warning]))"

section \<open>platform/posix/frameserver.c: arcan\_frameserver\_spawn\_subsegment\<close>

text \<open>
  What the calls made by the function return: \<open>arcan_frameserver_alloc\<close>, the calls
  of \<open>shmalloc\<close>, \<open>arcan_video_addfobject\<close>, \<open>arcan_audio_feed\<close>,
  \<open>socketpair\<close> (\<open>None\<close> when it fails, else the two descriptors),
  \<open>arcan_pushhandle\<close> and \<open>arcan_timemillis\<close>.
\<close>

record spawn_calls =
  alloc_rv :: "arcan_frameserver option"
  shmalloc_rvs :: shmalloc_calls
  addfobject_rv :: int
  audio_feed_rv :: int
  socketpair_rv :: "(int \<times> int) option"
  pushhandle_rv :: bool
  timemillis_rv :: int

text \<open>
  Lines 422 and 423:
  \<^verbatim>\<open>
  hintw = hintw < 0 || hintw > ARCAN_SHMPAGE_MAXW ? 32 : hintw;
  hinth = hinth < 0 || hinth > ARCAN_SHMPAGE_MAXH ? 32 : hinth;
  \<close>
\<close>

definition clamp_hint :: "int \<Rightarrow> int \<Rightarrow> int" where
  "clamp_hint maxv hint = (if hint < 0 \<or> hint > maxv then 32 else hint)"

text \<open>
  Lines 422 to 537, after the allocation has succeeded. \<open>c\<close> is the parent, \<open>newseg\<close>
  the new record, \<open>tr\<close> the trace so far. The result is the returned record (\<open>None\<close>
  is \<open>NULL\<close>), the parent and the trace. \<open>snprintf\<close> copies at most
  \<open>message_size - 1\<close> characters of the key into the message of the event.
  The offsets of the video and audio buffers (\<open>arcan_shmif_calcofs\<close>) and the event
  queues of the new record (\<open>arcan_shmif_setevqs\<close>, \<open>killswitch\<close>) are fields that
  the record of the model does not have.
\<close>

definition spawn_subsegment_setup ::
    "platform \<Rightarrow> spawn_calls \<Rightarrow> arcan_frameserver \<Rightarrow> arcan_frameserver \<Rightarrow> syscall list \<Rightarrow>
     bool \<Rightarrow> int \<Rightarrow> int \<Rightarrow> int \<Rightarrow>
     (arcan_frameserver option \<times> arcan_frameserver option \<times> syscall list) option" where
  "spawn_subsegment_setup P E c newseg tr input hintw hinth tag =
     (let hintw1 = clamp_hint (ARCAN_SHMPAGE_MAXW P) hintw;
          hinth1 = clamp_hint (ARCAN_SHMPAGE_MAXH P) hinth;
          newvid = addfobject_rv E
      in if newvid = ARCAN_EID P then Some (None, Some c, tr @ [Frameserver_free])
         else
           (case shm_ptr newseg of
              None \<Rightarrow> None
            | Some page \<Rightarrow>
                (let n1 = newseg\<lparr>shm_ptr := Some (page\<lparr>page_w := hintw1, page_h := hinth1\<rparr>)\<rparr>;
                     n2 = (if \<not> input then n1\<lparr>aid := Some (audio_feed_rv E)\<rparr> else n1);
                     n3 = n2\<lparr>desc_width := hintw1, desc_height := hinth1, source := source c,
                            vid := newvid, feed := Feed_emptyframe, flags_pbo := flags_pbo c,
                            flags_subsegment := True\<rparr>;
                     (n4, c1, tr1) =
                       (case socketpair_rv E of
                          None \<Rightarrow> (n3, c, tr @ [Socketpair, Warning])
                        | Some (sockp0, sockp1) \<Rightarrow>
                            (case arcan_frameserver_pushfd (pushhandle_rv E) (Some c) sockp1 of
                               (errc, c', tr') \<Rightarrow>
                                 (n3\<lparr>sockout_fd := sockp0\<rparr>,
                                  (case c' of None \<Rightarrow> c | Some c'' \<Rightarrow> c''),
                                  tr @ [Socketpair, Fcntl_cloexec sockp0, Fcntl_cloexec sockp1]
                                     @ tr')));
                     keyev = \<lparr>category = EVENT_TARGET, kind = TARGET_COMMAND_NEWSEGMENT,
                              ioevs0_iv = (if input then 1 else 0), ioevs1_iv = tag,
                              message = take (message_size P - 1) (shm_key n4)\<rparr>;
                     n5 = n4\<lparr>launchedtime := timemillis_rv E, child := child c1,
                            flags_alive := True, queue_mask := Some EVENT_EXTERNAL\<rparr>;
                     (n6, keyev1) =
                       (if input
                        then (n5\<lparr>fsrv_segid := SEGID_ENCODER, flags_socksig := True\<rparr>,
                              keyev\<lparr>ioevs0_iv := 1, ioevs1_iv := tag\<rparr>)
                        else (n5\<lparr>fsrv_segid := SEGID_UNKNOWN, flags_socksig := True\<rparr>, keyev));
                     n7 = n6\<lparr>sz_audb := ARCAN_SHMPAGE_AUDIOBUF_SZ P, ofs_audb := 0,
                            audb := Some (sz_audb c1)\<rparr>;
                     c2 = c1\<lparr>outqueue := arcan_event_enqueue (outqueue c1) keyev1\<rparr>
                 in Some (Some n7, Some c2, tr1))))"

text \<open>
  \<open>arcan_frameserver_spawn_subsegment(ctx, input, hintw, hinth, tag)\<close>, lines 410 to
  420. A \<open>NULL\<close> from \<open>arcan_frameserver_alloc\<close> is dereferenced by
  \<open>shmalloc\<close>: \<open>None\<close>, as is the undefined behaviour of \<open>shmalloc\<close> itself.
\<close>

definition arcan_frameserver_spawn_subsegment ::
    "platform \<Rightarrow> spawn_calls \<Rightarrow> arcan_frameserver option \<Rightarrow> bool \<Rightarrow> int \<Rightarrow> int \<Rightarrow> int \<Rightarrow>
     (arcan_frameserver option \<times> arcan_frameserver option \<times> syscall list) option" where
  "arcan_frameserver_spawn_subsegment P E ctx input hintw hinth tag =
     (case ctx of
        None \<Rightarrow> Some (None, None, [])
      | Some c \<Rightarrow>
          if flags_alive c = False then Some (None, Some c, [])
          else
            (case alloc_rv E of
               None \<Rightarrow> None
             | Some fresh \<Rightarrow>
                 (case shmalloc P (shmalloc_rvs E) fresh False None of
                    None \<Rightarrow> None
                  | Some (ok, newseg, tr) \<Rightarrow>
                      if \<not> ok then Some (None, Some c, tr @ [Frameserver_free])
                      else spawn_subsegment_setup P E c newseg tr input hintw hinth tag)))"

section \<open>platform/posix/frameserver.c: socketverify\<close>

text \<open>
  \<open>fd_avail(fd, &term)\<close>: \<open>sv\<close> is what \<open>poll\<close> returns, \<open>errno_EINTR\<close> whether
  \<open>errno\<close> is \<open>EINTR\<close>, \<open>revents_err\<close> whether \<open>revents\<close> has one of
  \<open>POLLERR\<close>, \<open>POLLHUP\<close>, \<open>POLLNVAL\<close>. The result is the value returned and
  \<open>*term\<close>.
\<close>

definition fd_avail :: "int \<Rightarrow> bool \<Rightarrow> bool \<Rightarrow> bool \<times> bool" where
  "fd_avail sv errno_EINTR revents_err =
     (if sv = - 1 then (False, \<not> errno_EINTR)
      else if sv = 0 then (False, False)
      else if revents_err then (False, True)
      else (True, False))"

text \<open>
  Modelled from the spec: \<open>arcan_frameserver_free\<close> is defined outside the two files
  modelled here. The
  spec says that destruction stops the feed and unmaps the page, and that a record is alive
  iff its page is mapped and its feed state is not destroyed. The record keeps its other
  fields: the source reads \<open>tgt->sockrofs\<close> after the call.
\<close>

definition arcan_frameserver_free :: "arcan_frameserver \<Rightarrow> arcan_frameserver" where
  "arcan_frameserver_free src = src\<lparr>feed := Feed_destroyed, flags_alive := False, shm_ptr := None\<rparr>"

text \<open>
  What one call of \<open>write\<close> returns: \<open>-1\<close> with an \<open>errno\<close> that is one of
  \<open>EAGAIN\<close>, \<open>EWOULDBLOCK\<close>, \<open>EINTR\<close> (\<open>Write_failed True\<close>) or another one
  (\<open>Write_failed False\<close>), or the number of bytes written.
\<close>

datatype write_rv = Write_failed bool | Written nat

text \<open>What the calls made by one invocation of \<open>socketverify\<close> return.\<close>

record verify_calls =
  poll_rv :: int
  poll_errno_EINTR :: bool
  poll_revents_err :: bool
  read_byte :: "char option"
  write_rvs :: "write_rv list"
  verify_audio_feed_rv :: int

datatype arcan_ffunc_cmd = FFUNC_POLL | FFUNC_DESTROY | FFUNC_TICK

text \<open>
  \<open>memset(buf + ofs, c, n)\<close> on a buffer; a write past its end is \<open>None\<close>.
\<close>

definition memset_buf :: "string \<Rightarrow> nat \<Rightarrow> char \<Rightarrow> nat \<Rightarrow> string option" where
  "memset_buf buf ofs c n =
     (if ofs + n \<le> length buf then Some (take ofs buf @ replicate n c @ drop (ofs + n) buf)
      else None)"

text \<open>
  \<open>snprintf(buf, sz, "%s\n", key)\<close>, given the formatted string \<open>src\<close>: at most
  \<open>sz - 1\<close> characters of it and a NUL are stored; the value returned is the length of
  \<open>src\<close>. A size that exceeds the buffer is \<open>None\<close>.
\<close>

definition snprintf_buf :: "string \<Rightarrow> nat \<Rightarrow> string \<Rightarrow> (string \<times> nat) option" where
  "snprintf_buf buf sz src =
     (if sz = 0 then Some (buf, length src)
      else if sz > length buf then None
      else (let out = take (sz - 1) src @ [NUL]
            in Some (out @ drop (length out) buf, length src)))"

text \<open>
  The loop of \<open>send_key\<close>:
  \<^verbatim>\<open>
  while (rtc && ntw){
      ssize_t rc = write(tgt->sockout_fd, tgt->sockinbuf + wofs, ntw);
      if (-1 == rc){
          rtc = (errno == EAGAIN || errno == EWOULDBLOCK || errno == EINTR) ? rtc - 1 : 0;
      }
      else{ ntw -= rc; wofs += rc; }
  }
  \<close>
  It consumes one \<open>write_rv\<close> per call of \<open>write\<close> and returns \<open>rtc\<close> with the bytes
  that went out. \<open>None\<close>: the list ends while the loop still runs, or \<open>write\<close>
  reports more bytes than it was given, or the bytes lie outside the buffer.
\<close>

fun send_key_loop ::
    "write_rv list \<Rightarrow> int \<Rightarrow> nat \<Rightarrow> nat \<Rightarrow> string \<Rightarrow> string \<Rightarrow> (int \<times> string) option" where
  "send_key_loop [] rtc ntw wofs buf out =
     (if rtc \<noteq> 0 \<and> ntw \<noteq> 0 then None else Some (rtc, out))"
| "send_key_loop (r # rs) rtc ntw wofs buf out =
     (if rtc \<noteq> 0 \<and> ntw \<noteq> 0
      then (case r of
              Write_failed again \<Rightarrow>
                send_key_loop rs (if again then rtc - 1 else 0) ntw wofs buf out
            | Written rc \<Rightarrow>
                if rc > ntw \<or> wofs + rc > length buf then None
                else send_key_loop rs rtc (ntw - rc) (wofs + rc) buf
                       (out @ take rc (drop wofs buf)))
      else Some (rtc, out))"

text \<open>
  The label \<open>send_key\<close>, lines 634 to 676: warn that the connection is verified,
  format the segment key and a newline into \<open>sockinbuf\<close>, write it with up to ten
  retries, then warn and free the record, or install the \<open>emptyframe\<close> feed and the
  audio feed.
\<close>

definition send_key ::
    "platform \<Rightarrow> verify_calls \<Rightarrow> arcan_frameserver \<Rightarrow> (arcan_frameserver \<times> syscall list) option" where
  "send_key P E tgt =
     (case snprintf_buf (sockinbuf tgt) (PP_SHMPAGE_SHMKEYLIM P) (shm_key tgt @ [LF]) of
        None \<Rightarrow> None
      | Some (buf, ntw) \<Rightarrow>
          (case send_key_loop (write_rvs E) 10 ntw 0 buf [] of
             None \<Rightarrow> None
           | Some (rtc, out) \<Rightarrow>
               (let tgt1 = tgt\<lparr>sockinbuf := buf, sock_written := sock_written tgt @ out\<rparr>
                in if rtc \<le> 0 then Some (arcan_frameserver_free tgt1, [Warning, Warning])
                   else Some (tgt1\<lparr>feed := Feed_emptyframe,
                                   aid := Some (verify_audio_feed_rv E),
                                   sz_audb := 1024 * 64, audb := Some (1024 * 64)\<rparr>,
                              [Warning]))))"

text \<open>
  Lines 616 to 621: the check of the read offset against the key limit, which warns and
  frees the record. \<open>tr\<close> is the trace so far.
\<close>

definition socketverify_overflow ::
    "platform \<Rightarrow> arcan_frameserver \<Rightarrow> syscall list \<Rightarrow> arcan_frameserver \<times> syscall list" where
  "socketverify_overflow P tgt tr =
     (if sockrofs tgt \<ge> PP_SHMPAGE_SHMKEYLIM P
      then (arcan_frameserver_free tgt, tr @ [Warning])
      else (tgt, tr))"

text \<open>
  \<open>socketverify(cmd, ..., state)\<close> with \<open>tgt = state.ptr\<close>. The value returned is
  always \<open>FFUNC_RV_NOFRAME\<close>; the model returns the record and the trace. \<open>ch\<close> is
  initialised to the newline, so a \<open>read\<close> that stores nothing leaves a newline.
  \<open>None\<close> is undefined behaviour: a \<open>memset\<close> or a store outside \<open>sockinbuf\<close>, a
  comparison that reads outside a buffer, or one of the cases of \<open>send_key\<close>.
\<close>

definition socketverify ::
    "platform \<Rightarrow> verify_calls \<Rightarrow> arcan_ffunc_cmd \<Rightarrow> arcan_frameserver \<Rightarrow>
     (arcan_frameserver \<times> syscall list) option" where
  "socketverify P E cmd tgt =
     (case cmd of
        FFUNC_POLL \<Rightarrow>
          if first_char (clientkey tgt) = NUL then send_key P E tgt
          else
            (case fd_avail (poll_rv E) (poll_errno_EINTR E) (poll_revents_err E) of
               (avail, term) \<Rightarrow>
                 if \<not> avail then Some (if term then arcan_frameserver_free tgt else tgt, [])
                 else
                   (let ch = (case read_byte E of None \<Rightarrow> LF | Some c \<Rightarrow> c)
                    in if ch = LF
                       then
                         (if sockrofs tgt > PP_SHMPAGE_SHMKEYLIM P then None
                          else
                            (case memset_buf (sockinbuf tgt) (sockrofs tgt) NUL
                                    (PP_SHMPAGE_SHMKEYLIM P - sockrofs tgt) of
                               None \<Rightarrow> None
                             | Some buf \<Rightarrow>
                                 (let tgt1 = tgt\<lparr>sockinbuf := buf\<rparr>
                                  in case memcmp_nodep (map u8_of_char buf)
                                            (map u8_of_char (clientkey tgt))
                                            (PP_SHMPAGE_SHMKEYLIM P) of
                                       None \<Rightarrow> None
                                     | Some True \<Rightarrow> send_key P E tgt1
                                     | Some False \<Rightarrow>
                                         Some (socketverify_overflow P
                                                 (arcan_frameserver_free tgt1) [Warning]))))
                       else
                         (if sockrofs tgt \<ge> length (sockinbuf tgt) then None
                          else Some (socketverify_overflow P
                                       (tgt\<lparr>sockinbuf := (sockinbuf tgt)[sockrofs tgt := ch],
                                            sockrofs := sockrofs tgt + 1\<rparr>) []))))
      | FFUNC_DESTROY \<Rightarrow>
          (case sockaddr tgt of
             None \<Rightarrow> Some (tgt, [])
           | Some path \<Rightarrow> Some (tgt, [Unlink path]))
      | FFUNC_TICK \<Rightarrow> Some (tgt, []))"

text \<open>
  Modelled from the spec: the driver of the feed functions is defined outside the two
  files modelled here. The spec says that the driver invokes the feed function of a
  record with a command and that a destroyed record has no feed. \<open>verify_polls\<close> polls a record once
  for each element of the list, as long as \<open>socketverify\<close> is its feed function.
\<close>

fun verify_polls ::
    "platform \<Rightarrow> arcan_frameserver \<Rightarrow> verify_calls list \<Rightarrow> arcan_frameserver option" where
  "verify_polls P tgt [] = Some tgt"
| "verify_polls P tgt (E # Es) =
     (if feed tgt = Feed_socketverify
      then (case socketverify P E FFUNC_POLL tgt of
              None \<Rightarrow> None
            | Some (tgt1, tr) \<Rightarrow> verify_polls P tgt1 Es)
      else Some tgt)"

text \<open>
  The calls of a poll at which the socket is readable and \<open>read\<close> stores the byte
  \<open>b\<close>; \<open>ws\<close> is what the calls of \<open>write\<close> return, should the poll reach
  \<open>send_key\<close>.
\<close>

definition byte_arrives :: "write_rv list \<Rightarrow> char \<Rightarrow> verify_calls" where
  "byte_arrives ws b =
     \<lparr>poll_rv = 1, poll_errno_EINTR = False, poll_revents_err = False,
      read_byte = Some b, write_rvs = ws, verify_audio_feed_rv = 1\<rparr>"

section \<open>a12/net/net.c: the trace groups\<close>

text \<open>The table \<open>trace_groups\<close>, lines 45 to 55.\<close>

definition trace_groups :: "string list" where
  "trace_groups =
     [''video'', ''audio'', ''system'', ''event'', ''missing'', ''alloc'', ''crypto'',
      ''vdetail'', ''btransfer'']"

text \<open>\<open>tolower\<close> in the C locale, and \<open>strcasecmp(a, b) == 0\<close>.\<close>

definition tolower :: "char \<Rightarrow> char" where
  "tolower c =
     (if (of_char (CHR ''A'') :: nat) \<le> of_char c \<and> (of_char c :: nat) \<le> of_char (CHR ''Z'')
      then char_of ((of_char c :: nat) + 32) else c)"

definition strcasecmp_eq :: "string \<Rightarrow> string \<Rightarrow> bool" where
  "strcasecmp_eq a b = (map tolower a = map tolower b)"

text \<open>
  The tokens that \<open>strtok(work, ",")\<close> and the calls \<open>strtok(NULL, ",")\<close> after it
  return: the maximal runs of characters other than the comma. \<open>cur\<close> is the token
  being read.
\<close>

fun strtok_tokens :: "string \<Rightarrow> string \<Rightarrow> string list" where
  "strtok_tokens [] cur = (if cur = [] then [] else [cur])"
| "strtok_tokens (c # cs) cur =
     (if c = CHR '',''
      then (if cur = [] then strtok_tokens cs [] else cur # strtok_tokens cs [])
      else strtok_tokens cs (cur @ [c]))"

text \<open>
  The inner loop of \<open>tracestr_to_bitmap\<close>, from index \<open>i\<close> of the table:
  \<^verbatim>\<open>
  for (size_t i = 0; i < COUNT_OF(trace_groups); i++){
      if (strcasecmp(trace_groups[i], pt) == 0){ res |= 1 << i; break; }
  }
  \<close>
\<close>

fun trace_group_scan :: "string list \<Rightarrow> nat \<Rightarrow> string \<Rightarrow> int \<Rightarrow> int" where
  "trace_group_scan [] i pt res = res"
| "trace_group_scan (g # gs) i pt res =
     (if strcasecmp_eq g pt then res OR push_bit i 1 else trace_group_scan gs (Suc i) pt res)"

text \<open>The outer loop over the tokens, and \<open>tracestr_to_bitmap(work)\<close>.\<close>

fun tracestr_tokens_loop :: "string list \<Rightarrow> int \<Rightarrow> int" where
  "tracestr_tokens_loop [] res = res"
| "tracestr_tokens_loop (pt # pts) res =
     tracestr_tokens_loop pts (trace_group_scan trace_groups 0 pt res)"

definition tracestr_to_bitmap :: "string \<Rightarrow> int" where
  "tracestr_to_bitmap work = tracestr_tokens_loop (strtok_tokens work []) 0"

text \<open>
  The trace groups as the usage text of \<open>show_usage\<close> prints them (lines 402 to 405):
  \<^verbatim>\<open>
  video:1      audio:2      system:4    event:8      transfer:16
  debug:32     missing:64   alloc:128  crypto:256    vdetail:512
  btransfer:1024
  \<close>
\<close>

definition usage_trace_groups :: "(string \<times> int) list" where
  "usage_trace_groups =
     [(''video'', 1), (''audio'', 2), (''system'', 4), (''event'', 8), (''transfer'', 16),
      (''debug'', 32), (''missing'', 64), (''alloc'', 128), (''crypto'', 256),
      (''vdetail'', 512), (''btransfer'', 1024)]"

section \<open>a12/net/net.c: find\_connection and the outbound client\<close>

text \<open>
  \<open>anet.state\<close> of the \<open>struct anet_cl_connection\<close> that \<open>find_connection\<close>
  returns: the local variable is not initialised, \<open>anet_cl_setup\<close> returned no state, or
  it returned one.
\<close>

datatype anet_state = Anet_uninitialised | Anet_no_state | Anet_connected

text \<open>
  \<^verbatim>\<open>
  int rc = opts->retry_count;
  int timesleep = 1;
  while (rc != 0 && (!cl || (shmifsrv_poll(cl) != CLIENT_DEAD))){
      anet = anet_cl_setup(opts);
      if (anet.state) break;
      if (!anet.state){
          ...
          if (timesleep < 10) timesleep++;
          if (rc > 0) rc--;
          sleep(timesleep);
          continue;
      }
  }
  return anet;
  \<close>
  Each element of the list describes one turn of the loop: whether \<open>shmifsrv_poll\<close>
  reports the client dead (read only when there is a client) and whether
  \<open>anet_cl_setup\<close> returns a state. The result is \<open>anet.state\<close>, the number of
  calls of \<open>anet_cl_setup\<close> and the arguments of the calls of \<open>sleep\<close>, in order.
  The lines elided above print and free \<open>anet.errmsg\<close>.
  \<open>None\<close>: the list ends while the loop still runs.
\<close>

fun find_connection_loop ::
    "bool \<Rightarrow> (bool \<times> bool) list \<Rightarrow> int \<Rightarrow> int \<Rightarrow> anet_state \<Rightarrow> nat \<Rightarrow> int list \<Rightarrow>
     (anet_state \<times> nat \<times> int list) option" where
  "find_connection_loop has_cl [] rc timesleep anet attempts sleeps =
     (if rc \<noteq> 0 then None else Some (anet, attempts, sleeps))"
| "find_connection_loop has_cl ((dead, setup_ok) # turns) rc timesleep anet attempts sleeps =
     (if rc \<noteq> 0 \<and> (\<not> has_cl \<or> \<not> dead)
      then (if setup_ok then Some (Anet_connected, Suc attempts, sleeps)
            else (let timesleep1 = (if timesleep < 10 then timesleep + 1 else timesleep);
                      rc1 = (if rc > 0 then rc - 1 else rc)
                  in find_connection_loop has_cl turns rc1 timesleep1 Anet_no_state
                       (Suc attempts) (sleeps @ [timesleep1])))
      else Some (anet, attempts, sleeps))"

text \<open>
  \<open>int rc = opts->retry_count;\<close> narrows the \<open>ssize_t\<close> that line 539 stores to
  an \<open>int\<close> of 32 bits: the value modulo \<open>2 ^ 32\<close>, read as two's complement.
\<close>

definition int_of_ssize_t :: "int \<Rightarrow> int" where
  "int_of_ssize_t x = signed_take_bit 31 x"

text \<open>
  \<open>find_connection(opts, cl)\<close>, with \<open>retry_count\<close> the value of
  \<open>opts->retry_count\<close> and \<open>has_cl\<close> whether \<open>cl\<close> is not \<open>NULL\<close>.
\<close>

definition find_connection ::
    "int \<Rightarrow> bool \<Rightarrow> (bool \<times> bool) list \<Rightarrow> (anet_state \<times> nat \<times> int list) option" where
  "find_connection retry_count has_cl turns =
     find_connection_loop has_cl turns (int_of_ssize_t retry_count) 1 Anet_uninitialised 0 []"

definition EXIT_SUCCESS :: int where
  "EXIT_SUCCESS = 0"



section \<open>a12/net/net.c: the keystore subcommand\<close>

text \<open>
  What the process does that is visible from outside: a line on \<open>stderr\<close> followed by
  the usage text (\<open>show_usage(msg)\<close>), and the calls to the keystore.
\<close>

datatype net_output =
    Usage "string option"
  | Keystore_open
  | Keystore_register string string nat
  | Keystore_release

text \<open>
  \<open>show_usage(msg)\<close> prints and returns \<open>false\<close>; a caller that returns \<open>int\<close>
  and writes \<open>return show_usage(...)\<close> returns \<open>0\<close>.
\<close>

definition show_usage :: "string option \<Rightarrow> bool \<times> net_output list" where
  "show_usage msg = (False, [Usage msg])"

definition int_of_bool :: "bool \<Rightarrow> int" where
  "int_of_bool b = (if b then 1 else 0)"

text \<open>
  \<open>strtoul(s, NULL, 10)\<close> with an \<open>unsigned long\<close> of 64 bits: leading white
  space is skipped, then an optional sign, then the digits are read, up to the first
  character that is not one. The value of the digits is \<open>ULONG_MAX\<close> when it does not
  fit, a minus sign negates it modulo \<open>2 ^ 64\<close>, and no digits give 0.
\<close>

definition isspace :: "char \<Rightarrow> bool" where
  "isspace c = ((of_char c :: nat) = 32 \<or> (9 \<le> (of_char c :: nat) \<and> (of_char c :: nat) \<le> 13))"

fun strtoul_digits :: "string \<Rightarrow> nat \<Rightarrow> nat" where
  "strtoul_digits [] acc = acc"
| "strtoul_digits (c # cs) acc =
     (if (of_char (CHR ''0'') :: nat) \<le> of_char c \<and> (of_char c :: nat) \<le> of_char (CHR ''9'')
      then strtoul_digits cs (10 * acc + ((of_char c :: nat) - of_char (CHR ''0'')))
      else acc)"

definition strtoul10 :: "string \<Rightarrow> nat" where
  "strtoul10 s =
     (case dropWhile isspace s of
        [] \<Rightarrow> 0
      | c # cs \<Rightarrow>
          if c = CHR ''-''
          then (if strtoul_digits cs 0 > 2 ^ 64 - 1 then 2 ^ 64 - 1
                else (2 ^ 64 - strtoul_digits cs 0) mod 2 ^ 64)
          else if c = CHR ''+'' then min (strtoul_digits cs 0) (2 ^ 64 - 1)
          else min (strtoul_digits (c # cs) 0) (2 ^ 64 - 1))"

text \<open>What the calls made by \<open>apply_keystore_command\<close> return.\<close>

record keystore_calls =
  getenv_ARCAN_STATEPATH :: "string option"
  open_rv :: int
  keystore_open_rv :: bool
  keystore_register_rv :: bool

text \<open>
  \<open>get_keystore_dirfd(&err)\<close>: the descriptor, or \<open>-1\<close> and the message.
\<close>

definition get_keystore_dirfd :: "keystore_calls \<Rightarrow> int \<times> string option" where
  "get_keystore_dirfd E =
     (case getenv_ARCAN_STATEPATH E of
        None \<Rightarrow> (- 1, Some ''Missing basedir with keystore (set ARCAN_STATEPATH)'')
      | Some basedir \<Rightarrow>
          if open_rv E = - 1
          then (- 1, Some ''Error opening basedir, check permissions and type'')
          else (open_rv E, None))"

text \<open>
  \<open>apply_keystore_command(argc, argv)\<close>, with \<open>argv\<close> the list of the \<open>argc\<close>
  arguments. The result is the value returned and the output. The statement
  \<^verbatim>\<open>if (!a12helper_keystore_register(tag, host, port)){ }\<close>
  has an empty body.
\<close>

definition apply_keystore_command :: "keystore_calls \<Rightarrow> string list \<Rightarrow> int \<times> net_output list" where
  "apply_keystore_command E argv =
     (if length argv = 0
      then (int_of_bool (fst (show_usage (Some ''Missing keystore command arguments''))),
            snd (show_usage (Some ''Missing keystore command arguments'')))
      else
        (case get_keystore_dirfd E of
           (dir, err) \<Rightarrow>
             if dir = - 1 then (int_of_bool (fst (show_usage err)), snd (show_usage err))
             else if \<not> keystore_open_rv E
             then (int_of_bool (fst (show_usage (Some ''Couldn't open keystore from basedir''))),
                   Keystore_open # snd (show_usage (Some ''Couldn't open keystore from basedir'')))
             else if length argv < 2
             then (int_of_bool (fst (show_usage (Some ''Missing tag / host arguments''))),
                   [Keystore_open, Keystore_release]
                     @ snd (show_usage (Some ''Missing tag / host arguments'')))
             else
               (let tag = argv ! 0;
                    host = argv ! 1;
                    rest = drop 2 argv;
                    port = (if length rest \<noteq> 0 then strtoul10 (rest ! 0) else 6680)
                in if length rest \<noteq> 0 \<and> (port = 0 \<or> port > 65535)
                   then (int_of_bool
                           (fst (show_usage (Some ''Port argument is invalid or out of range''))),
                         [Keystore_open, Keystore_release]
                           @ snd (show_usage (Some ''Port argument is invalid or out of range'')))
                   else (EXIT_SUCCESS,
                         [Keystore_open, Keystore_register tag host port, Keystore_release]))))"

text \<open>
  \<open>main\<close>, lines 631 to 633: the exit code of the process when \<open>argv[1]\<close> is
  \<open>keystore\<close>. The other forms of the command line are \<open>None\<close> here.
\<close>

definition main_keystore :: "keystore_calls \<Rightarrow> string list \<Rightarrow> (int \<times> net_output list) option" where
  "main_keystore E argv =
     (if length argv > 1 \<and> argv ! 1 = ''keystore''
      then Some (apply_keystore_command E (drop 2 argv))
      else None)"

text \<open>The messages that the output shows on \<open>stderr\<close>.\<close>

fun diagnostics :: "net_output list \<Rightarrow> string option list" where
  "diagnostics [] = []"
| "diagnostics (Usage msg # os) = msg # diagnostics os"
| "diagnostics (x # os) = diagnostics os"

section \<open>Results of a call, by component\<close>

definition shmalloc_trace ::
    "platform \<Rightarrow> shmalloc_calls \<Rightarrow> arcan_frameserver \<Rightarrow> bool \<Rightarrow> string option \<Rightarrow>
     syscall list option" where
  "shmalloc_trace P E ctx namedsocket optkey =
     (case shmalloc P E ctx namedsocket optkey of
        None \<Rightarrow> None
      | Some (ok, ctx1, tr) \<Rightarrow> Some tr)"

definition shmalloc_returns ::
    "platform \<Rightarrow> shmalloc_calls \<Rightarrow> arcan_frameserver \<Rightarrow> bool \<Rightarrow> string option \<Rightarrow>
     bool option" where
  "shmalloc_returns P E ctx namedsocket optkey =
     (case shmalloc P E ctx namedsocket optkey of
        None \<Rightarrow> None
      | Some (ok, ctx1, tr) \<Rightarrow> Some ok)"

text \<open>The width and the height in the control header of the record that a spawn returns.\<close>

definition spawned_dimensions ::
    "platform \<Rightarrow> spawn_calls \<Rightarrow> arcan_frameserver option \<Rightarrow> bool \<Rightarrow> int \<Rightarrow> int \<Rightarrow> int \<Rightarrow>
     (int \<times> int) option" where
  "spawned_dimensions P E ctx input hintw hinth tag =
     (case arcan_frameserver_spawn_subsegment P E ctx input hintw hinth tag of
        Some (Some newseg, ctx1, tr) \<Rightarrow>
          (case shm_ptr newseg of None \<Rightarrow> None | Some page \<Rightarrow> Some (page_w page, page_h page))
      | _ \<Rightarrow> None)"

text \<open>The socket descriptor of the record that a spawn returns.\<close>

definition spawned_sockout_fd ::
    "platform \<Rightarrow> spawn_calls \<Rightarrow> arcan_frameserver option \<Rightarrow> bool \<Rightarrow> int \<Rightarrow> int \<Rightarrow> int \<Rightarrow>
     int option" where
  "spawned_sockout_fd P E ctx input hintw hinth tag =
     (case arcan_frameserver_spawn_subsegment P E ctx input hintw hinth tag of
        Some (Some newseg, ctx1, tr) \<Rightarrow> Some (sockout_fd newseg)
      | _ \<Rightarrow> None)"

text \<open>The kinds of the events on the outbound queue of the parent after a spawn.\<close>

definition spawned_event_kinds ::
    "platform \<Rightarrow> spawn_calls \<Rightarrow> arcan_frameserver option \<Rightarrow> bool \<Rightarrow> int \<Rightarrow> int \<Rightarrow> int \<Rightarrow>
     target_command list option" where
  "spawned_event_kinds P E ctx input hintw hinth tag =
     (case arcan_frameserver_spawn_subsegment P E ctx input hintw hinth tag of
        Some (newseg, Some ctx1, tr) \<Rightarrow> Some (map kind (outqueue ctx1))
      | _ \<Rightarrow> None)"

text \<open>
  Whether the socket pair was created and its second descriptor handed to the parent's
  producer: the condition under which \<open>arcan_frameserver_pushfd\<close> pushes its event.
\<close>

definition descriptor_handed_over :: "spawn_calls \<Rightarrow> bool" where
  "descriptor_handed_over E =
     (case socketpair_rv E of
        None \<Rightarrow> False
      | Some (sockp0, sockp1) \<Rightarrow> sockp1 \<noteq> 0 \<and> pushhandle_rv E)"

text \<open>
  An allocation followed by the teardown of the record it filled: the semaphore names
  that the allocation opened, the semaphore names that the teardown unlinked, and the
  shared memory names that the teardown unlinked.
\<close>

definition shmalloc_then_dropshared ::
    "platform \<Rightarrow> shmalloc_calls \<Rightarrow> arcan_frameserver \<Rightarrow> bool \<Rightarrow> string option \<Rightarrow> int \<Rightarrow>
     (string list \<times> string list \<times> string list) option" where
  "shmalloc_then_dropshared P E ctx namedsocket optkey munmap_rv =
     (case shmalloc P E ctx namedsocket optkey of
        None \<Rightarrow> None
      | Some (ok, ctx1, tr) \<Rightarrow>
          (case arcan_frameserver_dropshared munmap_rv (Some ctx1) of
             None \<Rightarrow> None
           | Some tr2 \<Rightarrow>
               Some (opened_semaphores tr, unlinked_semaphores tr2, unlinked_shm tr2)))"

text \<open>
  What a spawn on the parent \<open>c\<close> leaves behind: for the record it returns, if any,
  the process it monitors and its segment key; and the outbound queue of the parent.
\<close>

definition spawn_outcome ::
    "platform \<Rightarrow> spawn_calls \<Rightarrow> arcan_frameserver \<Rightarrow> bool \<Rightarrow> int \<Rightarrow> int \<Rightarrow> int \<Rightarrow>
     ((int \<times> string) option \<times> arcan_event list option) option" where
  "spawn_outcome P E c input hintw hinth tag =
     (case arcan_frameserver_spawn_subsegment P E (Some c) input hintw hinth tag of
        None \<Rightarrow> None
      | Some (newseg, ctx1, tr) \<Rightarrow>
          Some (case newseg of None \<Rightarrow> None | Some n \<Rightarrow> Some (child n, shm_key n),
                case ctx1 of None \<Rightarrow> None | Some c1 \<Rightarrow> Some (outqueue c1)))"

text \<open>The two events of a spawn, as the source initialises them.\<close>

definition fdtransfer_event :: arcan_event where
  "fdtransfer_event =
     \<lparr>category = EVENT_TARGET, kind = TARGET_COMMAND_FDTRANSFER,
      ioevs0_iv = 0, ioevs1_iv = 0, message = []\<rparr>"

definition newsegment_event :: "bool \<Rightarrow> int \<Rightarrow> string \<Rightarrow> arcan_event" where
  "newsegment_event input tag msg =
     \<lparr>category = EVENT_TARGET, kind = TARGET_COMMAND_NEWSEGMENT,
      ioevs0_iv = (if input then 1 else 0), ioevs1_iv = tag, message = msg\<rparr>"

text \<open>
  Whether the allocation, the mapping and the video object of a spawn succeed, so that
  the spawn returns a record.
\<close>

definition spawn_succeeds :: "platform \<Rightarrow> spawn_calls \<Rightarrow> bool" where
  "spawn_succeeds P E =
     (ftruncate_rv (shmalloc_rvs E) \<noteq> - 1 \<and> \<not> mmap_failed (shmalloc_rvs E) \<and>
      addfobject_rv E \<noteq> ARCAN_EID P)"

text \<open>
  The feed function of a record and the bytes written to its socket, after a sequence of
  polls.
\<close>

definition verify_outcome ::
    "platform \<Rightarrow> arcan_frameserver \<Rightarrow> verify_calls list \<Rightarrow> (ffunc \<times> string) option" where
  "verify_outcome P tgt Es =
     (case verify_polls P tgt Es of
        None \<Rightarrow> None
      | Some t \<Rightarrow> Some (feed t, sock_written t))"

section \<open>Concrete inputs\<close>

definition example_platform :: platform where
  "example_platform =
     \<lparr>ARCAN_SHM_PREFIX = ''.arcan/'', on_linux = True, sun_path_size = 108,
      ARCAN_SHMPAGE_START_SZ = 4096, ARCAN_SHM_UMASK = 448,
      ARCAN_VERSION_MAJOR = 0, ARCAN_VERSION_MINOR = 5, arcan_shmif_cookie = 1,
      ARCAN_SHMPAGE_MAXW = 8192, ARCAN_SHMPAGE_MAXH = 8192,
      ARCAN_SHMPAGE_AUDIOBUF_SZ = 65536, PP_SHMPAGE_SHMKEYLIM = 4, message_size = 78,
      ARCAN_EID = 0\<rparr>"

text \<open>A record as \<open>arcan_frameserver_alloc\<close> hands it out: every field zero.\<close>

definition fresh_frameserver :: arcan_frameserver where
  "fresh_frameserver =
     \<lparr>shm_key = [], shm_shmsize = 0, shm_handle = 0, shm_ptr = None,
      vsync = None, async = None, esync = None, sockout_fd = 0, sockaddr = None,
      child = 0, flags_alive = False, flags_subsegment = False, flags_pbo = False,
      flags_socksig = False, fsrv_segid = SEGID_UNKNOWN, source = None, vid = 0, aid = None,
      desc_width = 0, desc_height = 0, launchedtime = 0, queue_mask = None,
      sz_audb = 0, ofs_audb = 0, audb = None, outqueue = [],
      clientkey = [], sockinbuf = [], sockrofs = 0, feed = Feed_none, sock_written = []\<rparr>"

definition example_parent :: arcan_frameserver where
  "example_parent =
     fresh_frameserver\<lparr>shm_key := ''/arcan_7_0m'', child := 4711, flags_alive := True,
       sockout_fd := 9, sz_audb := 65536, feed := Feed_emptyframe\<rparr>"

definition example_shmalloc_calls :: shmalloc_calls where
  "example_shmalloc_calls =
     \<lparr>findshmkey_rv = ''/arcan_7_1m'', findshmkey_fd = 5, getenv_HOME = Some ''/home/u'',
      socket_rv = 6, bind_rv = 0, ftruncate_rv = 0, mmap_failed = False, getpid_rv = 100\<rparr>"

definition example_spawn_calls :: spawn_calls where
  "example_spawn_calls =
     \<lparr>alloc_rv = Some fresh_frameserver, shmalloc_rvs = example_shmalloc_calls,
      addfobject_rv = 3, audio_feed_rv = 2, socketpair_rv = Some (10, 11),
      pushhandle_rv = True, timemillis_rv = 1000\<rparr>"

text \<open>A record that waits for the key \<open>AB\<close> on its socket, with a key limit of 4.\<close>

definition example_verifying :: arcan_frameserver where
  "example_verifying =
     fresh_frameserver\<lparr>shm_key := ''/m'', flags_alive := True, sockout_fd := 9,
       clientkey := [CHR ''A'', CHR ''B'', NUL, NUL], sockinbuf := [NUL, NUL, NUL, NUL],
       feed := Feed_socketverify\<rparr>"

definition example_keystore_calls :: keystore_calls where
  "example_keystore_calls =
     \<lparr>getenv_ARCAN_STATEPATH = Some ''/var/state'', open_rv = 3, keystore_open_rv = True,
      keystore_register_rv = False\<rparr>"

section \<open>Facts about bytes\<close>

lemma u8_of_char_eq_iff: "u8_of_char a = u8_of_char b \<longleftrightarrow> a = b"
proof -
  have "take_bit 8 (of_char c :: nat) = of_char c" for c
    by (simp add: take_bit_eq_mod)
  then show ?thesis
    by (simp add: u8_of_char_def word_of_nat_eq_iff)
qed

lemma map_u8_of_char_eq_iff: "map u8_of_char xs = map u8_of_char ys \<longleftrightarrow> xs = ys"
  by (rule inj_map_eq_map) (simp add: inj_on_def u8_of_char_eq_iff)

lemma u8_xor_eq_0_iff: "(a :: u8) XOR b = 0 \<longleftrightarrow> a = b"
  by (metis bit.xor_left_self xor.right_neutral)

section \<open>The key comparison inspects every byte\<close>

lemma memcmp_nodep_loop_total:
  "n \<le> length p1 \<Longrightarrow> n \<le> length p2 \<Longrightarrow>
   \<exists>d. memcmp_nodep_loop p1 p2 n diffv iters = Some (d, iters + n) \<and>
       (d = 0 \<longleftrightarrow> diffv = 0 \<and> take n p1 = take n p2)"
proof (induction p1 p2 n diffv iters rule: memcmp_nodep_loop.induct)
  case (1 p1 p2 diffv iters)
  then show ?case by simp
next
  case (2 a p1 b p2 n diffv iters)
  then obtain d where
    d: "memcmp_nodep_loop p1 p2 n (diffv OR (a XOR b)) (Suc iters) = Some (d, Suc iters + n)"
       "d = 0 \<longleftrightarrow> (diffv OR (a XOR b)) = 0 \<and> take n p1 = take n p2"
    by auto
  show ?case
    using d by (auto simp: or_eq_0_iff u8_xor_eq_0_iff)
qed simp_all

lemma memcmp_nodep_loop_fold:
  "n \<le> length p1 \<Longrightarrow> n \<le> length p2 \<Longrightarrow>
   memcmp_nodep_loop p1 p2 n diffv iters =
     Some (fold (\<lambda>(a, b) d. d OR (a XOR b)) (zip (take n p1) (take n p2)) diffv, iters + n)"
  by (induction p1 p2 n diffv iters rule: memcmp_nodep_loop.induct) simp_all

text \<open>
  C2. For all buffers holding at least \<open>n\<close> bytes, the loop of the comparison ends
  after \<open>n\<close> iterations with, in its accumulator, the XOR differences of all \<open>n\<close>
  pairs of bytes, those after the first differing pair included, ORed together; the
  comparison returns true exactly when the buffers agree on their first \<open>n\<close> bytes.
  The number of iterations is \<open>n\<close> whatever the buffers hold, so wherever the first
  differing byte is.
\<close>

theorem memcmp_nodep_correct_full_scan:
  assumes "n \<le> length s1" and "n \<le> length s2"
  shows "memcmp_nodep_loop s1 s2 n 0 0 = Some (accumulated_xor_differences s1 s2 n, n) \<and>
         memcmp_nodep s1 s2 n = Some (take n s1 = take n s2) \<and>
         memcmp_nodep_iterations s1 s2 n = Some n"
proof -
  have acc: "memcmp_nodep_loop s1 s2 n 0 0 = Some (accumulated_xor_differences s1 s2 n, n)"
    using memcmp_nodep_loop_fold [OF assms, of 0 0]
    by (simp add: accumulated_xor_differences_def)
  obtain d where d: "memcmp_nodep_loop s1 s2 n 0 0 = Some (d, n)"
      "d = 0 \<longleftrightarrow> take n s1 = take n s2"
    using memcmp_nodep_loop_total [OF assms, of 0 0] by auto
  show ?thesis
    using acc d by (simp add: memcmp_nodep_def memcmp_nodep_iterations_def)
qed

theorem memcmp_nodep_correct_full_scan_witness:
  "memcmp_nodep_loop [1, 2, 3, 4] [9, 2, 7, 4] 4 0 0 = Some (12, 4) \<and>
   memcmp_nodep [1, 2, 3, 4] [9, 2, 7, 4] 4 = Some False \<and>
   memcmp_nodep_iterations [1, 2, 3, 4] [9, 2, 7, 4] 4 = Some 4"
  using memcmp_nodep_correct_full_scan [of 4 "[1, 2, 3, 4]" "[9, 2, 7, 4]"]
  by (simp add: accumulated_xor_differences_def)

section \<open>The semaphore names and the failure paths of the allocator\<close>

lemma set_last_char_snoc: "work \<noteq> [] \<Longrightarrow> set_last_char work c = Some (butlast work @ [c])"
proof -
  assume "work \<noteq> []"
  then obtain ys y where "work = ys @ [y]" by (metis rev_exhaust)
  then show ?thesis by (simp add: set_last_char_def)
qed

lemma shmalloc_semaphores_names:
  "shm_key ctx \<noteq> [] \<Longrightarrow> shmalloc_semaphores ctx =
     Some (ctx\<lparr>vsync := Some (butlast (shm_key ctx) @ ''v''),
               async := Some (butlast (shm_key ctx) @ ''a''),
               esync := Some (butlast (shm_key ctx) @ ''e'')\<rparr>,
           butlast (shm_key ctx) @ ''e'',
           [Sem_open (butlast (shm_key ctx) @ ''v''), Sem_open (butlast (shm_key ctx) @ ''a''),
            Sem_open (butlast (shm_key ctx) @ ''e'')])"
  by (simp add: shmalloc_semaphores_def set_last_char_snoc)

lemma opened_semaphores_append:
  "opened_semaphores (a @ b) = opened_semaphores a @ opened_semaphores b"
  by (induction a rule: opened_semaphores.induct) simp_all

lemma unlinked_semaphores_append:
  "unlinked_semaphores (a @ b) = unlinked_semaphores a @ unlinked_semaphores b"
  by (induction a rule: unlinked_semaphores.induct) simp_all

lemma unlinked_shm_append: "unlinked_shm (a @ b) = unlinked_shm a @ unlinked_shm b"
  by (induction a rule: unlinked_shm.induct) simp_all

lemma closed_fds_append: "closed_fds (a @ b) = closed_fds a @ closed_fds b"
  by (induction a rule: closed_fds.induct) simp_all

lemma shmalloc_bind_keeps:
  "shmalloc_bind P E ctx fd path tr = Inl t \<Longrightarrow>
     opened_semaphores t = opened_semaphores tr \<and> unlinked_shm t = unlinked_shm tr \<and>
     unlinked_semaphores t = unlinked_semaphores tr"
  "shmalloc_bind P E ctx fd path tr = Inr (c, t) \<Longrightarrow>
     opened_semaphores t = opened_semaphores tr \<and> unlinked_shm t = unlinked_shm tr \<and>
     unlinked_semaphores t = unlinked_semaphores tr \<and> shm_key c = shm_key ctx"
  by (auto simp: shmalloc_bind_def opened_semaphores_append unlinked_shm_append
      unlinked_semaphores_append split: if_splits)

lemma shmalloc_namedsocket_keeps:
  "shmalloc_namedsocket P E ctx optkey = Inl t \<Longrightarrow>
     opened_semaphores t = [] \<and> unlinked_shm t = [] \<and> unlinked_semaphores t = []"
  "shmalloc_namedsocket P E ctx optkey = Inr (c, t) \<Longrightarrow>
     opened_semaphores t = [] \<and> unlinked_shm t = [] \<and> unlinked_semaphores t = [] \<and>
     shm_key c = shm_key ctx"
  by (auto simp: shmalloc_namedsocket_def Let_def
      split: if_splits option.splits dest!: shmalloc_bind_keeps)

lemma shmalloc_map_keeps:
  "shmalloc_map P E ctx work tr = (ok, c, t) \<Longrightarrow>
     opened_semaphores t = opened_semaphores tr \<and> unlinked_shm t = unlinked_shm tr \<and>
     unlinked_semaphores t = unlinked_semaphores tr \<and> shm_key c = shm_key ctx"
  by (auto simp: shmalloc_map_def shmalloc_fail_def Let_def opened_semaphores_append
      unlinked_shm_append unlinked_semaphores_append split: if_splits)

lemma shmalloc_fail_keeps:
  "shmalloc_fail ctx work tr = (ok, c, t) \<Longrightarrow>
     opened_semaphores t = opened_semaphores tr \<and> unlinked_shm t = unlinked_shm tr \<and>
     unlinked_semaphores t = unlinked_semaphores tr \<and> shm_key c = shm_key ctx"
  by (auto simp: shmalloc_fail_def opened_semaphores_append unlinked_shm_append
      unlinked_semaphores_append)

lemma shmalloc_opens:
  assumes "findshmkey_rv E \<noteq> []"
  shows "\<exists>ok c t. shmalloc P E ctx namedsocket optkey = Some (ok, c, t) \<and>
           shm_key c = findshmkey_rv E \<and>
           unlinked_shm t = [] \<and> unlinked_semaphores t = [] \<and>
           opened_semaphores t =
             [butlast (findshmkey_rv E) @ ''v'', butlast (findshmkey_rv E) @ ''a'',
              butlast (findshmkey_rv E) @ ''e'']"
proof -
  let ?K = "findshmkey_rv E"
  let ?ctx0 = "ctx\<lparr>shm_key := ?K, shm_shmsize := ARCAN_SHMPAGE_START_SZ P\<rparr>"
  let ?ctx1 = "?ctx0\<lparr>vsync := Some (butlast ?K @ ''v''), async := Some (butlast ?K @ ''a''),
        esync := Some (butlast ?K @ ''e'')\<rparr>"
  let ?tr = "[Sem_open (butlast ?K @ ''v''), Sem_open (butlast ?K @ ''a''),
              Sem_open (butlast ?K @ ''e'')]"
  have sems: "shmalloc_semaphores ?ctx0 = Some (?ctx1, butlast ?K @ ''e'', ?tr)"
    using assms shmalloc_semaphores_names [of ?ctx0] by simp
  show ?thesis
  proof (cases "if namedsocket then shmalloc_namedsocket P E ?ctx1 optkey else Inr (?ctx1, [])")
    case (Inl tr2)
    then have ns: "opened_semaphores tr2 = []" "unlinked_shm tr2 = []"
        "unlinked_semaphores tr2 = []"
      by (auto split: if_splits dest: shmalloc_namedsocket_keeps)
    obtain ok c t where f: "shmalloc_fail ?ctx1 (butlast ?K @ ''e'') (?tr @ tr2) = (ok, c, t)"
      by (metis prod_cases3)
    from shmalloc_fail_keeps [OF f] ns
    have "opened_semaphores t = [butlast ?K @ ''v'', butlast ?K @ ''a'', butlast ?K @ ''e'']"
      "shm_key c = ?K" "unlinked_shm t = []" "unlinked_semaphores t = []"
      by (simp_all add: opened_semaphores_append unlinked_shm_append
          unlinked_semaphores_append)
    with sems Inl f show ?thesis
      by (simp add: shmalloc_def)
  next
    case (Inr p)
    obtain ctx2 tr2 where p: "p = (ctx2, tr2)" by (cases p)
    with Inr have ns: "opened_semaphores tr2 = []" "shm_key ctx2 = ?K"
        "unlinked_shm tr2 = []" "unlinked_semaphores tr2 = []"
      by (auto split: if_splits dest: shmalloc_namedsocket_keeps)
    obtain ok c t where f: "shmalloc_map P E ctx2 (butlast ?K @ ''e'') (?tr @ tr2) = (ok, c, t)"
      by (metis prod_cases3)
    from shmalloc_map_keeps [OF f] ns
    have "opened_semaphores t = [butlast ?K @ ''v'', butlast ?K @ ''a'', butlast ?K @ ''e'']"
      "shm_key c = ?K" "unlinked_shm t = []" "unlinked_semaphores t = []"
      by (simp_all add: opened_semaphores_append unlinked_shm_append
          unlinked_semaphores_append)
    with sems Inr p f show ?thesis
      by (simp add: shmalloc_def)
  qed
qed

lemma shmalloc_never_unlinks:
  assumes "shmalloc P E ctx namedsocket optkey = Some (ok, c, t)"
  shows "unlinked_shm t = [] \<and> unlinked_semaphores t = []"
proof -
  have "findshmkey_rv E \<noteq> []"
    using assms by (auto simp: shmalloc_def shmalloc_semaphores_def set_last_char_def)
  from shmalloc_opens [OF this, of P ctx namedsocket optkey] assms show ?thesis
    by auto
qed

lemma dropshared_unlinks:
  assumes "shm_key s \<noteq> []"
  shows "\<exists>t. arcan_frameserver_dropshared rv (Some s) = Some t \<and>
           unlinked_shm t = [shm_key s] \<and>
           unlinked_semaphores t =
             [butlast (shm_key s) @ ''v'', butlast (shm_key s) @ ''a'',
              butlast (shm_key s) @ ''e'']"
  using assms
  by (simp add: arcan_frameserver_dropshared_def set_last_char_snoc unlinked_shm_append
      unlinked_semaphores_append split: option.splits)

lemmas example_defs = example_platform_def example_shmalloc_calls_def fresh_frameserver_def
  example_spawn_calls_def example_parent_def

lemmas shmalloc_defs = shmalloc_trace_def shmalloc_returns_def shmalloc_def
  shmalloc_semaphores_def set_last_char_def shmalloc_map_def shmalloc_fail_def
  shmalloc_namedsocket_def shmalloc_bind_def cstr_def first_char_def NUL_def

text \<open>
  C1, as stated, fails. For the key \<open>/arcan_7_1m\<close> the semaphores that the allocation
  opens are \<open>/arcan_7_1v\<close>, \<open>/arcan_7_1a\<close> and \<open>/arcan_7_1e\<close>: the suffix
  takes the place of the last character of the key, it is not appended to the key.
\<close>

theorem semaphore_names_not_key_plus_suffix:
  "map_option opened_semaphores
     (shmalloc_trace example_platform example_shmalloc_calls fresh_frameserver False None) =
     Some [''/arcan_7_1v'', ''/arcan_7_1a'', ''/arcan_7_1e''] \<and>
   map_option opened_semaphores
     (shmalloc_trace example_platform example_shmalloc_calls fresh_frameserver False None) \<noteq>
     Some [''/arcan_7_1m'' @ ''v'', ''/arcan_7_1m'' @ ''a'', ''/arcan_7_1m'' @ ''e'']"
  by (simp add: shmalloc_defs example_defs)

text \<open>
  C1, amended. For every non-empty segment key \<open>K\<close>, the three semaphores opened at
  allocation, and the three unlinked at teardown of a record with that key, are named
  by \<open>K\<close> with its last character replaced by \<open>v\<close>, \<open>a\<close> and \<open>e\<close>
  respectively, in that order.
\<close>

theorem semaphore_names_replace_last_char:
  assumes "findshmkey_rv E = K" and "shm_key s = K" and "K \<noteq> []"
  shows "map_option opened_semaphores (shmalloc_trace P E ctx namedsocket optkey) =
           Some [butlast K @ ''v'', butlast K @ ''a'', butlast K @ ''e''] \<and>
         map_option unlinked_semaphores (arcan_frameserver_dropshared munmap_rv (Some s)) =
           Some [butlast K @ ''v'', butlast K @ ''a'', butlast K @ ''e'']"
proof -
  from assms have "findshmkey_rv E \<noteq> []" by simp
  from shmalloc_opens [OF this, of P ctx namedsocket optkey] assms(1)
  have a: "map_option opened_semaphores (shmalloc_trace P E ctx namedsocket optkey) =
           Some [butlast K @ ''v'', butlast K @ ''a'', butlast K @ ''e'']"
    by (auto simp: shmalloc_trace_def)
  from assms have "shm_key s \<noteq> []" by simp
  from dropshared_unlinks [OF this, of munmap_rv] assms(2)
  have b: "map_option unlinked_semaphores (arcan_frameserver_dropshared munmap_rv (Some s)) =
           Some [butlast K @ ''v'', butlast K @ ''a'', butlast K @ ''e'']"
    by auto
  from a b show ?thesis by simp
qed

theorem semaphore_names_replace_last_char_witness:
  "findshmkey_rv example_shmalloc_calls = ''/arcan_7_1m'' \<and>
   shm_key (fresh_frameserver\<lparr>shm_key := ''/arcan_7_1m''\<rparr>) = ''/arcan_7_1m'' \<and>
   ''/arcan_7_1m'' \<noteq> [] \<and>
   map_option opened_semaphores
     (shmalloc_trace example_platform example_shmalloc_calls fresh_frameserver False None) =
     Some [''/arcan_7_1v'', ''/arcan_7_1a'', ''/arcan_7_1e''] \<and>
   map_option unlinked_semaphores
     (arcan_frameserver_dropshared 0 (Some (fresh_frameserver\<lparr>shm_key := ''/arcan_7_1m''\<rparr>))) =
     Some [''/arcan_7_1v'', ''/arcan_7_1a'', ''/arcan_7_1e'']"
  using semaphore_names_replace_last_char [of example_shmalloc_calls "''/arcan_7_1m''"
      "fresh_frameserver\<lparr>shm_key := ''/arcan_7_1m''\<rparr>" example_platform fresh_frameserver
      False None 0]
  by (simp add: example_shmalloc_calls_def)

text \<open>
  C10. For every non-empty segment key, an allocation followed by the teardown of the
  record unlinks exactly the three semaphore names that the allocation opened, in the same
  order, and unlinks the shared memory object under the key itself. This holds on every
  path of the allocation, failing or not, with or without a named socket.
\<close>

theorem dropshared_unlinks_what_shmalloc_opened:
  assumes "findshmkey_rv E \<noteq> []"
  shows "\<exists>names. shmalloc_then_dropshared P E ctx namedsocket optkey munmap_rv =
                   Some (names, names, [findshmkey_rv E]) \<and> length names = 3"
proof -
  from shmalloc_opens [OF assms, of P ctx namedsocket optkey]
  obtain ok c t where o: "shmalloc P E ctx namedsocket optkey = Some (ok, c, t)"
      "shm_key c = findshmkey_rv E"
      "opened_semaphores t =
         [butlast (findshmkey_rv E) @ ''v'', butlast (findshmkey_rv E) @ ''a'',
          butlast (findshmkey_rv E) @ ''e'']"
    by blast
  from o(2) assms have "shm_key c \<noteq> []" by simp
  from dropshared_unlinks [OF this, of munmap_rv]
  obtain t2 where d: "arcan_frameserver_dropshared munmap_rv (Some c) = Some t2"
      "unlinked_shm t2 = [shm_key c]"
      "unlinked_semaphores t2 =
         [butlast (shm_key c) @ ''v'', butlast (shm_key c) @ ''a'', butlast (shm_key c) @ ''e'']"
    by blast
  from o d show ?thesis
    by (simp add: shmalloc_then_dropshared_def)
qed

theorem dropshared_unlinks_what_shmalloc_opened_witness:
  "findshmkey_rv example_shmalloc_calls \<noteq> [] \<and>
   shmalloc_then_dropshared example_platform example_shmalloc_calls fresh_frameserver
     True (Some ''demo'') 0 =
     Some ([''/arcan_7_1v'', ''/arcan_7_1a'', ''/arcan_7_1e''],
           [''/arcan_7_1v'', ''/arcan_7_1a'', ''/arcan_7_1e''], [''/arcan_7_1m''])"
  using dropshared_unlinks_what_shmalloc_opened [of example_shmalloc_calls example_platform
      fresh_frameserver True "Some ''demo''" 0]
  by (simp add: shmalloc_then_dropshared_def arcan_frameserver_dropshared_def shmalloc_defs
      example_defs)

text \<open>
  C6 does not hold of the code. When \<open>ftruncate\<close> fails the allocator returns
  \<open>false\<close> at once: its calls are the three \<open>sem_open\<close> and the \<open>ftruncate\<close>,
  and neither the shared memory object nor a semaphore is unlinked, nor is the label
  \<open>fail\<close> reached. On no path at all does the allocator unlink the shared memory
  object or a semaphore by itself (\<open>shmalloc_never_unlinks\<close>); the label \<open>fail\<close>
  only calls \<open>arcan_frameserver_dropsemaphores_keyed\<close>
  (\<open>shmalloc_bind_failure_keeps_shm\<close>), and when \<open>mmap\<close> fails neither the
  descriptor of the shared memory object nor the listening socket is closed
  (\<open>shmalloc_mmap_failure_closes_nothing\<close>).
\<close>

theorem shmalloc_truncate_failure_unlinks_nothing:
  "shmalloc_returns example_platform (example_shmalloc_calls\<lparr>ftruncate_rv := - 1\<rparr>)
     fresh_frameserver False None = Some False \<and>
   shmalloc_trace example_platform (example_shmalloc_calls\<lparr>ftruncate_rv := - 1\<rparr>)
     fresh_frameserver False None =
     Some [Sem_open ''/arcan_7_1v'', Sem_open ''/arcan_7_1a'', Sem_open ''/arcan_7_1e'',
           Ftruncate 5 4096, Warning]"
  by (simp add: shmalloc_defs example_defs)

lemma shmalloc_mmap_failure_closes_nothing:
  "map_option closed_fds
     (shmalloc_trace example_platform (example_shmalloc_calls\<lparr>mmap_failed := True\<rparr>)
        fresh_frameserver True (Some ''demo'')) = Some [] \<and>
   map_option unlinked_shm
     (shmalloc_trace example_platform (example_shmalloc_calls\<lparr>mmap_failed := True\<rparr>)
        fresh_frameserver True (Some ''demo'')) = Some []"
  by (simp add: shmalloc_defs example_defs)

lemma shmalloc_bind_failure_keeps_shm:
  "shmalloc_trace example_platform (example_shmalloc_calls\<lparr>bind_rv := - 1\<rparr>)
     fresh_frameserver True (Some ''demo'') =
     Some [Sem_open ''/arcan_7_1v'', Sem_open ''/arcan_7_1a'', Sem_open ''/arcan_7_1e'',
           Socket, Fcntl_cloexec 6, Unlink ''/home/u/.arcan/demo'',
           Bind 6 ''/home/u/.arcan/demo'', Warning, Close 6,
           Dropsemaphores_keyed ''/arcan_7_1e'']"
  by (simp add: shmalloc_defs example_defs)

section \<open>The hints of a subsegment\<close>

lemmas spawn_defs = arcan_frameserver_spawn_subsegment_def spawn_subsegment_setup_def
  arcan_frameserver_pushfd_def arcan_frameserver_pushevent_def arcan_event_enqueue_def

lemma clamp_hint_range:
  "32 \<le> maxv \<Longrightarrow> 0 \<le> clamp_hint maxv hint \<and> clamp_hint maxv hint \<le> maxv"
  by (simp add: clamp_hint_def)

lemma clamp_hint_cases:
  "clamp_hint maxv hint = (if 0 \<le> hint \<and> hint \<le> maxv then hint else 32)"
  by (simp add: clamp_hint_def)

lemma spawned_dimensions_clamped:
  "spawned_dimensions P E ctx input hintw hinth tag = Some (pw, ph) \<Longrightarrow>
     pw = clamp_hint (ARCAN_SHMPAGE_MAXW P) hintw \<and> ph = clamp_hint (ARCAN_SHMPAGE_MAXH P) hinth"
  by (auto simp: spawned_dimensions_def spawn_defs Let_def
      split: option.splits if_splits prod.splits)

text \<open>
  C5 does not hold of the code. A spawn with the hints \<open>0\<close> and \<open>0\<close> writes the width
  \<open>0\<close> and the height \<open>0\<close> into the new control header: the test is \<open>hint < 0\<close>,
  so that \<open>0\<close> is neither replaced by the default nor within \<open>[1, MAX]\<close>. Every
  other hint is treated as the claim says (\<open>clamp_hint_cases\<close>,
  \<open>spawned_dimensions_clamped\<close>).
\<close>

theorem spawn_subsegment_zero_hint_kept:
  "spawned_dimensions example_platform example_spawn_calls (Some example_parent) False 0 0 7 =
     Some (0, 0)"
  by (simp add: spawned_dimensions_def spawn_defs shmalloc_defs example_defs clamp_hint_def)

section \<open>The trace groups\<close>

lemmas tracestr_defs = tracestr_to_bitmap_def trace_groups_def strcasecmp_eq_def tolower_def

text \<open>
  C8 does not hold of the code. The table \<open>trace_groups\<close> has nine entries, without
  \<open>transfer\<close> and \<open>debug\<close>: \<open>missing\<close> sets bit 4 (16) and \<open>btransfer\<close> bit 8
  (256), \<open>transfer\<close> and \<open>debug\<close> set nothing, whereas the usage text of the same
  file gives \<open>missing:64\<close> and \<open>btransfer:1024\<close>.
\<close>

theorem tracestr_to_bitmap_missing_is_bit_4:
  "tracestr_to_bitmap ''missing'' = 16 \<and>
   tracestr_to_bitmap ''btransfer'' = 256 \<and>
   tracestr_to_bitmap ''transfer'' = 0 \<and>
   tracestr_to_bitmap ''debug'' = 0 \<and>
   map_of usage_trace_groups ''missing'' = Some 64 \<and>
   map_of usage_trace_groups ''btransfer'' = Some 1024"
  by (simp add: tracestr_defs usage_trace_groups_def)

lemma tracestr_to_bitmap_first_four:
  "tracestr_to_bitmap ''video'' = 1 \<and> tracestr_to_bitmap ''audio'' = 2 \<and>
   tracestr_to_bitmap ''system'' = 4 \<and> tracestr_to_bitmap ''event'' = 8 \<and>
   tracestr_to_bitmap ''Video,EVENT'' = 9"
  by code_simp

section \<open>The keystore subcommand\<close>

lemmas keystore_defs = main_keystore_def apply_keystore_command_def get_keystore_dirfd_def
  show_usage_def int_of_bool_def strtoul10_def

text \<open>
  C9 does not hold of the code. With a registration call that fails, the keystore
  subcommand returns \<open>EXIT_SUCCESS\<close> and prints nothing: the \<open>if\<close> that tests the
  result of the registration has an empty body.
\<close>

theorem keystore_register_failure_exits_success:
  "keystore_register_rv example_keystore_calls = False \<and>
   main_keystore example_keystore_calls [''arcan-net'', ''keystore'', ''mytag'', ''example.org''] =
     Some (EXIT_SUCCESS,
           [Keystore_open, Keystore_register ''mytag'' ''example.org'' 6680, Keystore_release]) \<and>
   diagnostics
     [Keystore_open, Keystore_register ''mytag'' ''example.org'' 6680, Keystore_release] = []"
  by (simp add: keystore_defs example_keystore_calls_def)

lemma apply_keystore_command_ignores_register:
  "apply_keystore_command (E\<lparr>keystore_register_rv := r\<rparr>) argv = apply_keystore_command E argv"
  by (simp add: apply_keystore_command_def get_keystore_dirfd_def split: option.splits)

lemma keystore_bad_port_has_diagnostic:
  "main_keystore example_keystore_calls
     [''arcan-net'', ''keystore'', ''mytag'', ''example.org'', ''70000''] =
     Some (0, [Keystore_open, Keystore_release,
               Usage (Some ''Port argument is invalid or out of range'')])"
  by (simp add: keystore_defs example_keystore_calls_def)

section \<open>The backoff of the outbound connection\<close>




lemma find_connection_retry_count_wraps:
  "find_connection (2 ^ 32) has_cl turns = Some (Anet_uninitialised, 0, [])"
proof -
  have "int_of_ssize_t (2 ^ 32) = 0"
    by (simp add: int_of_ssize_t_def signed_take_bit_eq_take_bit_shift take_bit_eq_mod)
  then show ?thesis
    by (cases turns) (auto simp: find_connection_def)
qed




section \<open>The events of a spawn\<close>

lemma shmalloc_without_socket:
  assumes "findshmkey_rv E \<noteq> []"
  shows "shmalloc P E ctx False None =
     Some (shmalloc_map P E
       (ctx\<lparr>shm_key := findshmkey_rv E, shm_shmsize := ARCAN_SHMPAGE_START_SZ P,
             vsync := Some (butlast (findshmkey_rv E) @ ''v''),
             async := Some (butlast (findshmkey_rv E) @ ''a''),
             esync := Some (butlast (findshmkey_rv E) @ ''e'')\<rparr>)
       (butlast (findshmkey_rv E) @ ''e'')
       [Sem_open (butlast (findshmkey_rv E) @ ''v''), Sem_open (butlast (findshmkey_rv E) @ ''a''),
        Sem_open (butlast (findshmkey_rv E) @ ''e'')])"
  using assms
    shmalloc_semaphores_names [of "ctx\<lparr>shm_key := findshmkey_rv E,
      shm_shmsize := ARCAN_SHMPAGE_START_SZ P\<rparr>"]
  by (simp add: shmalloc_def)

lemma shmalloc_map_result:
  "shmalloc_map P E ctx work tr = (ok, c, t) \<Longrightarrow>
     ok = (ftruncate_rv E \<noteq> - 1 \<and> \<not> mmap_failed E) \<and> shm_key c = shm_key ctx \<and>
     (ok \<longrightarrow> shm_ptr c \<noteq> None)"
  by (auto simp: shmalloc_map_def shmalloc_fail_def Let_def split: if_splits)

lemma spawn_subsegment_setup_outcome:
  assumes "shm_ptr newseg = Some page"
  shows "(case spawn_subsegment_setup P E c newseg tr input hintw hinth tag of
            None \<Rightarrow> None
          | Some (r, ctx1, t) \<Rightarrow>
              Some (case r of None \<Rightarrow> None | Some n \<Rightarrow> Some (child n, shm_key n),
                    case ctx1 of None \<Rightarrow> None | Some c1 \<Rightarrow> Some (outqueue c1))) =
         Some (if addfobject_rv E = ARCAN_EID P then None
               else Some (child c, shm_key newseg),
               Some (outqueue c @
                 (if addfobject_rv E = ARCAN_EID P then []
                  else (if descriptor_handed_over E then [fdtransfer_event] else []) @
                   [newsegment_event input tag (take (message_size P - 1) (shm_key newseg))])))"
proof (cases "socketpair_rv E")
  case None
  with assms show ?thesis
    by (simp add: spawn_subsegment_setup_def Let_def descriptor_handed_over_def
        arcan_event_enqueue_def newsegment_event_def)
next
  case (Some sp)
  obtain sockp0 sockp1 where sp: "sp = (sockp0, sockp1)" by (cases sp)
  show ?thesis
  proof (cases "sockp1 \<noteq> 0 \<and> pushhandle_rv E")
    case True
    with assms Some sp show ?thesis
      by (simp add: spawn_subsegment_setup_def Let_def descriptor_handed_over_def
          arcan_frameserver_pushfd_def arcan_frameserver_pushevent_def arcan_event_enqueue_def
          fdtransfer_event_def newsegment_event_def)
  next
    case False
    with assms Some sp show ?thesis
      by (auto simp: spawn_subsegment_setup_def Let_def descriptor_handed_over_def
          arcan_frameserver_pushfd_def arcan_event_enqueue_def newsegment_event_def)
  qed
qed

text \<open>
  What every spawn on an alive parent leaves behind, path by path. When the allocation,
  the mapping or the video object fails, no record is returned and nothing is enqueued.
  Otherwise the new record monitors the \<open>child\<close> of the parent and the new-segment
  announce is enqueued once, as the last event, with \<open>is_input\<close>, the tag and the
  segment key as far as the message holds it; the fd-transfer event precedes it exactly
  when the socket pair was created and its descriptor handed over.
\<close>

lemma spawn_outcome_alive:
  assumes "flags_alive c" and "alloc_rv E = Some fresh"
    and "findshmkey_rv (shmalloc_rvs E) = K" and "K \<noteq> []"
  shows "spawn_outcome P E c input hintw hinth tag =
     Some (if spawn_succeeds P E then Some (child c, K) else None,
           Some (outqueue c @
             (if spawn_succeeds P E
              then (if descriptor_handed_over E then [fdtransfer_event] else []) @
                   [newsegment_event input tag (take (message_size P - 1) K)]
              else [])))"
proof -
  let ?E = "shmalloc_rvs E"
  from assms have k: "findshmkey_rv ?E \<noteq> []" by simp
  obtain ok newseg tr where m: "shmalloc P ?E fresh False None = Some (ok, newseg, tr)"
    and ok: "ok = (ftruncate_rv ?E \<noteq> - 1 \<and> \<not> mmap_failed ?E)"
    and key: "shm_key newseg = K" and ptr: "ok \<longrightarrow> shm_ptr newseg \<noteq> None"
  proof -
    obtain ok newseg tr where r: "shmalloc_map P ?E
       (fresh\<lparr>shm_key := findshmkey_rv ?E, shm_shmsize := ARCAN_SHMPAGE_START_SZ P,
             vsync := Some (butlast (findshmkey_rv ?E) @ ''v''),
             async := Some (butlast (findshmkey_rv ?E) @ ''a''),
             esync := Some (butlast (findshmkey_rv ?E) @ ''e'')\<rparr>)
       (butlast (findshmkey_rv ?E) @ ''e'')
       [Sem_open (butlast (findshmkey_rv ?E) @ ''v''), Sem_open (butlast (findshmkey_rv ?E) @ ''a''),
        Sem_open (butlast (findshmkey_rv ?E) @ ''e'')] = (ok, newseg, tr)"
      by (metis prod_cases3)
    from shmalloc_map_result [OF r] shmalloc_without_socket [OF k, of P fresh] r assms(3)
    show ?thesis by (intro that [of ok newseg tr]) simp_all
  qed
  show ?thesis
  proof (cases ok)
    case False
    with m ok assms(1,2) show ?thesis
      by (auto simp: spawn_outcome_def arcan_frameserver_spawn_subsegment_def
          spawn_succeeds_def)
  next
    case True
    with ptr obtain page where page: "shm_ptr newseg = Some page" by auto
    from True ok have s: "spawn_succeeds P E = (addfobject_rv E \<noteq> ARCAN_EID P)"
      by (simp add: spawn_succeeds_def)
    from spawn_subsegment_setup_outcome [OF page, of P E c tr input hintw hinth tag]
      True m assms(1,2) key s
    show ?thesis
      by (simp add: spawn_outcome_def arcan_frameserver_spawn_subsegment_def)
  qed
qed

lemma spawn_outcome_example:
  "spawn_outcome example_platform example_spawn_calls example_parent False 32 32 7 =
     Some (Some (4711, ''/arcan_7_1m''),
           Some [fdtransfer_event, newsegment_event False 7 ''/arcan_7_1m''])"
  using spawn_outcome_alive [of example_parent example_spawn_calls
      fresh_frameserver "''/arcan_7_1m''" example_platform False 32 32 7]
  by (simp add: example_defs spawn_succeeds_def descriptor_handed_over_def)

lemma spawn_allocation_failure_enqueues_nothing:
  "spawn_outcome example_platform
     (example_spawn_calls\<lparr>shmalloc_rvs := example_shmalloc_calls\<lparr>ftruncate_rv := - 1\<rparr>\<rparr>)
     example_parent False 32 32 7 = Some (None, Some [])"
  using spawn_outcome_alive [of example_parent
      "example_spawn_calls\<lparr>shmalloc_rvs := example_shmalloc_calls\<lparr>ftruncate_rv := - 1\<rparr>\<rparr>"
      fresh_frameserver "''/arcan_7_1m''" example_platform False 32 32 7]
  by (simp add: example_defs spawn_succeeds_def)

lemma spawn_video_object_failure_enqueues_nothing:
  "spawn_outcome example_platform (example_spawn_calls\<lparr>addfobject_rv := 0\<rparr>)
     example_parent False 32 32 7 = Some (None, Some [])"
  using spawn_outcome_alive [of example_parent "example_spawn_calls\<lparr>addfobject_rv := 0\<rparr>"
      fresh_frameserver "''/arcan_7_1m''" example_platform False 32 32 7]
  by (simp add: example_defs spawn_succeeds_def)

text \<open>
  C4 does not hold of the code. On an alive parent, when \<open>socketpair\<close> fails the
  function only warns (lines 470 to 473) and goes on: it returns the new record, whose
  socket descriptor is still 0, and enqueues the new-segment announce, with no
  fd-transfer event before it on the outbound queue of the parent. The other failures of
  the same function return \<open>NULL\<close> and enqueue nothing
  (\<open>spawn_allocation_failure_enqueues_nothing\<close>,
  \<open>spawn_video_object_failure_enqueues_nothing\<close>), and when the socket pair and the
  handover succeed the fd-transfer event does precede the announce
  (\<open>spawn_outcome_alive\<close>, \<open>spawn_outcome_example\<close>).
\<close>

theorem spawn_subsegment_announce_without_fdtransfer:
  "flags_alive example_parent \<and>
   spawn_outcome example_platform (example_spawn_calls\<lparr>socketpair_rv := None\<rparr>)
     example_parent False 32 32 7 =
     Some (Some (4711, ''/arcan_7_1m''), Some [newsegment_event False 7 ''/arcan_7_1m'']) \<and>
   spawned_sockout_fd example_platform (example_spawn_calls\<lparr>socketpair_rv := None\<rparr>)
     (Some example_parent) False 32 32 7 = Some 0 \<and>
   spawned_event_kinds example_platform (example_spawn_calls\<lparr>socketpair_rv := None\<rparr>)
     (Some example_parent) False 32 32 7 = Some [TARGET_COMMAND_NEWSEGMENT] \<and>
   spawned_event_kinds example_platform (example_spawn_calls\<lparr>socketpair_rv := None\<rparr>)
     (Some example_parent) False 32 32 7 \<noteq>
     Some [TARGET_COMMAND_FDTRANSFER, TARGET_COMMAND_NEWSEGMENT]"
  by (simp add: spawn_outcome_def spawned_sockout_fd_def spawned_event_kinds_def spawn_defs
      shmalloc_defs example_defs clamp_hint_def newsegment_event_def)

section \<open>The verification of the client key\<close>

lemma memcmp_nodep_take:
  assumes "n \<le> length s1" and "n \<le> length s2"
  shows "memcmp_nodep s1 s2 n = Some (take n s1 = take n s2)"
proof -
  obtain d where d: "memcmp_nodep_loop s1 s2 n 0 0 = Some (d, n)"
      "d = 0 \<longleftrightarrow> take n s1 = take n s2"
    using memcmp_nodep_loop_total [OF assms, of 0 0] by auto
  then show ?thesis by (simp add: memcmp_nodep_def)
qed

lemma socketverify_stores_byte:
  assumes "first_char (clientkey tgt) \<noteq> NUL" and "b \<noteq> LF"
    and "sockrofs tgt < length (sockinbuf tgt)"
  shows "socketverify P (byte_arrives ws b) FFUNC_POLL tgt =
           Some (socketverify_overflow P
                   (tgt\<lparr>sockinbuf := (sockinbuf tgt)[sockrofs tgt := b],
                        sockrofs := sockrofs tgt + 1\<rparr>) [])"
  using assms by (simp add: socketverify_def byte_arrives_def fd_avail_def)

lemma verify_polls_prefix:
  assumes "first_char (clientkey tgt) \<noteq> NUL" and "feed tgt = Feed_socketverify"
    and "LF \<notin> set pre" and "sockrofs tgt + length pre < PP_SHMPAGE_SHMKEYLIM P"
    and "PP_SHMPAGE_SHMKEYLIM P \<le> length (sockinbuf tgt)"
  shows "verify_polls P tgt (map (byte_arrives ws) pre @ Es) =
         verify_polls P
           (tgt\<lparr>sockinbuf := take (sockrofs tgt) (sockinbuf tgt) @ pre @
                               drop (sockrofs tgt + length pre) (sockinbuf tgt),
                sockrofs := sockrofs tgt + length pre\<rparr>) Es"
  using assms
proof (induction pre arbitrary: tgt)
  case Nil
  then show ?case by simp
next
  case (Cons b pre)
  let ?k = "sockrofs tgt"
  let ?buf = "sockinbuf tgt"
  let ?t1 = "tgt\<lparr>sockinbuf := ?buf[?k := b], sockrofs := ?k + 1\<rparr>"
  from Cons.prems have b: "b \<noteq> LF" and k: "?k < length ?buf"
    and k1: "?k + 1 < PP_SHMPAGE_SHMKEYLIM P"
    by auto
  have step: "socketverify P (byte_arrives ws b) FFUNC_POLL tgt = Some (?t1, [])"
    using socketverify_stores_byte [OF Cons.prems(1) b k, of P ws] k1
    by (simp add: socketverify_overflow_def)
  have ih: "verify_polls P ?t1 (map (byte_arrives ws) pre @ Es) =
         verify_polls P
           (?t1\<lparr>sockinbuf := take (sockrofs ?t1) (sockinbuf ?t1) @ pre @
                               drop (sockrofs ?t1 + length pre) (sockinbuf ?t1),
                sockrofs := sockrofs ?t1 + length pre\<rparr>) Es"
    using Cons.prems by (intro Cons.IH) simp_all
  have tk: "take (Suc ?k) (?buf[?k := b]) = take ?k ?buf @ [b]"
    using k by (simp add: take_Suc_conv_app_nth)
  have "verify_polls P tgt (map (byte_arrives ws) (b # pre) @ Es) =
        verify_polls P ?t1 (map (byte_arrives ws) pre @ Es)"
    using Cons.prems(2) step by simp
  also note ih
  finally show ?case
    using tk by simp
qed

lemma socketverify_mismatch:
  assumes "first_char (clientkey tgt) \<noteq> NUL"
    and "sockrofs tgt < PP_SHMPAGE_SHMKEYLIM P"
    and "length (sockinbuf tgt) = PP_SHMPAGE_SHMKEYLIM P"
    and "length (clientkey tgt) = PP_SHMPAGE_SHMKEYLIM P"
    and "take (sockrofs tgt) (sockinbuf tgt) @
           replicate (PP_SHMPAGE_SHMKEYLIM P - sockrofs tgt) NUL \<noteq> clientkey tgt"
  shows "\<exists>t tr. socketverify P (byte_arrives ws LF) FFUNC_POLL tgt = Some (t, tr) \<and>
           feed t = Feed_destroyed \<and> sock_written t = sock_written tgt"
proof -
  let ?L = "PP_SHMPAGE_SHMKEYLIM P"
  let ?buf = "take (sockrofs tgt) (sockinbuf tgt) @ replicate (?L - sockrofs tgt) NUL"
  have ms: "memset_buf (sockinbuf tgt) (sockrofs tgt) NUL (?L - sockrofs tgt) = Some ?buf"
    using assms(2,3) by (simp add: memset_buf_def)
  have len: "length ?buf = ?L" using assms(2,3) by simp
  have "memcmp_nodep (map u8_of_char ?buf) (map u8_of_char (clientkey tgt)) ?L =
          Some (take ?L (map u8_of_char ?buf) = take ?L (map u8_of_char (clientkey tgt)))"
    using len assms(4) by (intro memcmp_nodep_take) simp_all
  also have "take ?L (map u8_of_char ?buf) = map u8_of_char ?buf"
    by (rule take_all) (use len in simp)
  also have "take ?L (map u8_of_char (clientkey tgt)) = map u8_of_char (clientkey tgt)"
    by (rule take_all) (use assms(4) in simp)
  also have "(map u8_of_char ?buf = map u8_of_char (clientkey tgt)) = (?buf = clientkey tgt)"
    by (rule map_u8_of_char_eq_iff)
  finally have cmp: "memcmp_nodep (map u8_of_char ?buf) (map u8_of_char (clientkey tgt)) ?L =
      Some False"
    using assms(5) by simp
  show ?thesis
    using assms(1,2) ms cmp
    by (simp add: socketverify_def byte_arrives_def fd_avail_def socketverify_overflow_def
        arcan_frameserver_free_def)
qed

lemma verify_polls_not_verifying:
  "feed tgt \<noteq> Feed_socketverify \<Longrightarrow> verify_polls P tgt Es = Some tgt"
  by (cases Es) simp_all

lemma verify_rejects_mismatch:
  assumes "feed tgt = Feed_socketverify" and "sockrofs tgt = 0"
    and "length (sockinbuf tgt) = PP_SHMPAGE_SHMKEYLIM P"
    and "length (clientkey tgt) = PP_SHMPAGE_SHMKEYLIM P"
    and "first_char (clientkey tgt) \<noteq> NUL" and "LF \<notin> set pre"
    and "length pre < PP_SHMPAGE_SHMKEYLIM P"
    and "pre @ replicate (PP_SHMPAGE_SHMKEYLIM P - length pre) NUL \<noteq> clientkey tgt"
  shows "verify_outcome P tgt (map (byte_arrives ws) (pre @ LF # rest)) =
           Some (Feed_destroyed, sock_written tgt)"
proof -
  let ?t1 = "tgt\<lparr>sockinbuf := take (sockrofs tgt) (sockinbuf tgt) @ pre @
                               drop (sockrofs tgt + length pre) (sockinbuf tgt),
                sockrofs := sockrofs tgt + length pre\<rparr>"
  have p: "verify_polls P tgt (map (byte_arrives ws) pre @ map (byte_arrives ws) (LF # rest)) =
           verify_polls P ?t1 (map (byte_arrives ws) (LF # rest))"
    using assms by (intro verify_polls_prefix) simp_all
  have "\<exists>t tr. socketverify P (byte_arrives ws LF) FFUNC_POLL ?t1 = Some (t, tr) \<and>
           feed t = Feed_destroyed \<and> sock_written t = sock_written ?t1"
    using assms by (intro socketverify_mismatch) simp_all
  then obtain t tr where t: "socketverify P (byte_arrives ws LF) FFUNC_POLL ?t1 = Some (t, tr)"
      "feed t = Feed_destroyed" "sock_written t = sock_written tgt"
    by auto
  have "verify_polls P ?t1 (map (byte_arrives ws) (LF # rest)) = Some t"
    using t assms(1) by (simp add: verify_polls_not_verifying)
  with p t show ?thesis
    by (simp add: verify_outcome_def)
qed

lemma verify_rejects_overflow:
  assumes "feed tgt = Feed_socketverify" and "sockrofs tgt = 0"
    and "length (sockinbuf tgt) = PP_SHMPAGE_SHMKEYLIM P"
    and "first_char (clientkey tgt) \<noteq> NUL" and "LF \<notin> set pre"
    and "length pre = PP_SHMPAGE_SHMKEYLIM P" and "0 < PP_SHMPAGE_SHMKEYLIM P"
  shows "verify_outcome P tgt (map (byte_arrives ws) (pre @ rest)) =
           Some (Feed_destroyed, sock_written tgt)"
proof -
  from assms(6,7) obtain pre1 b where pre: "pre = pre1 @ [b]"
    by (cases pre rule: rev_cases) auto
  let ?t1 = "tgt\<lparr>sockinbuf := take (sockrofs tgt) (sockinbuf tgt) @ pre1 @
                               drop (sockrofs tgt + length pre1) (sockinbuf tgt),
                sockrofs := sockrofs tgt + length pre1\<rparr>"
  have p: "verify_polls P tgt (map (byte_arrives ws) pre1 @ map (byte_arrives ws) (b # rest)) =
           verify_polls P ?t1 (map (byte_arrives ws) (b # rest))"
    using assms pre by (intro verify_polls_prefix) simp_all
  from assms(5) pre have b: "b \<noteq> LF" by auto
  have "socketverify P (byte_arrives ws b) FFUNC_POLL ?t1 =
          Some (socketverify_overflow P
                   (?t1\<lparr>sockinbuf := (sockinbuf ?t1)[sockrofs ?t1 := b],
                        sockrofs := sockrofs ?t1 + 1\<rparr>) [])"
    using assms pre b by (intro socketverify_stores_byte) simp_all
  then obtain t where t:
      "socketverify P (byte_arrives ws b) FFUNC_POLL ?t1 = Some (t, [Warning])"
      "feed t = Feed_destroyed" "sock_written t = sock_written tgt"
    using assms pre by (simp add: socketverify_overflow_def arcan_frameserver_free_def)
  have "verify_polls P ?t1 (map (byte_arrives ws) (b # rest)) = Some t"
    using t assms(1) by (simp add: verify_polls_not_verifying)
  with p t pre show ?thesis
    by (simp add: verify_outcome_def)
qed

lemma socketverify_empty_key:
  "first_char (clientkey tgt) = NUL \<Longrightarrow> socketverify P E FFUNC_POLL tgt = send_key P E tgt"
  by (simp add: socketverify_def)

lemma send_key_written:
  assumes "length (sockinbuf tgt) = PP_SHMPAGE_SHMKEYLIM P"
    and "length (shm_key tgt) + 1 < PP_SHMPAGE_SHMKEYLIM P"
    and "write_rvs E = Written (length (shm_key tgt) + 1) # ws"
  shows "\<exists>t tr. send_key P E tgt = Some (t, tr) \<and> feed t = Feed_emptyframe \<and>
           sock_written t = sock_written tgt @ shm_key tgt @ [LF]"
proof -
  let ?L = "PP_SHMPAGE_SHMKEYLIM P"
  let ?src = "shm_key tgt @ [LF]"
  let ?buf = "?src @ [NUL] @ drop (length ?src + 1) (sockinbuf tgt)"
  have sn: "snprintf_buf (sockinbuf tgt) ?L ?src = Some (?buf, length (shm_key tgt) + 1)"
    using assms(1,2) by (simp add: snprintf_buf_def Let_def)
  have lp: "send_key_loop (write_rvs E) 10 (length (shm_key tgt) + 1) 0 ?buf [] =
         Some (10, ?src)"
    using assms(3) by (cases ws) simp_all
  show ?thesis
    using sn lp by (simp add: send_key_def)
qed

text \<open>
  C3. A record in the socket-verifying state, with an empty input buffer, is polled once
  for each byte of a sequence read from its socket. With a non-empty expected key: if the
  bytes before the first newline, padded with NUL to the key limit, differ from the
  expected key, or if as many bytes as the key limit arrive without a newline, the record
  ends destroyed and nothing has been written to the socket, whatever follows and whatever
  \<open>write\<close> would have returned. With an empty expected key a poll is \<open>send_key\<close>
  itself, without a read or a comparison, and when the socket takes the bytes the segment
  key and a newline are written at that poll.
\<close>

theorem socketverify_key_gate:
  assumes "feed tgt = Feed_socketverify" and "sockrofs tgt = 0"
    and "length (sockinbuf tgt) = PP_SHMPAGE_SHMKEYLIM P"
    and "length (clientkey tgt) = PP_SHMPAGE_SHMKEYLIM P"
  shows
    "(first_char (clientkey tgt) \<noteq> NUL \<and> LF \<notin> set pre \<and>
      length pre < PP_SHMPAGE_SHMKEYLIM P \<and>
      pre @ replicate (PP_SHMPAGE_SHMKEYLIM P - length pre) NUL \<noteq> clientkey tgt \<longrightarrow>
        verify_outcome P tgt (map (byte_arrives ws) (pre @ LF # rest)) =
          Some (Feed_destroyed, sock_written tgt)) \<and>
     (first_char (clientkey tgt) \<noteq> NUL \<and> LF \<notin> set pre \<and>
      length pre = PP_SHMPAGE_SHMKEYLIM P \<and> 0 < PP_SHMPAGE_SHMKEYLIM P \<longrightarrow>
        verify_outcome P tgt (map (byte_arrives ws) (pre @ rest)) =
          Some (Feed_destroyed, sock_written tgt)) \<and>
     (first_char (clientkey tgt) = NUL \<longrightarrow>
        socketverify P E FFUNC_POLL tgt = send_key P E tgt) \<and>
     (first_char (clientkey tgt) = NUL \<and>
      length (shm_key tgt) + 1 < PP_SHMPAGE_SHMKEYLIM P \<and>
      write_rvs E = Written (length (shm_key tgt) + 1) # ws' \<longrightarrow>
        verify_outcome P tgt [E] =
          Some (Feed_emptyframe, sock_written tgt @ shm_key tgt @ [LF]))"
proof (intro conjI impI)
  assume "first_char (clientkey tgt) \<noteq> NUL \<and> LF \<notin> set pre \<and>
      length pre < PP_SHMPAGE_SHMKEYLIM P \<and>
      pre @ replicate (PP_SHMPAGE_SHMKEYLIM P - length pre) NUL \<noteq> clientkey tgt"
  with assms show "verify_outcome P tgt (map (byte_arrives ws) (pre @ LF # rest)) =
          Some (Feed_destroyed, sock_written tgt)"
    by (intro verify_rejects_mismatch) simp_all
next
  assume "first_char (clientkey tgt) \<noteq> NUL \<and> LF \<notin> set pre \<and>
      length pre = PP_SHMPAGE_SHMKEYLIM P \<and> 0 < PP_SHMPAGE_SHMKEYLIM P"
  with assms show "verify_outcome P tgt (map (byte_arrives ws) (pre @ rest)) =
          Some (Feed_destroyed, sock_written tgt)"
    by (intro verify_rejects_overflow) simp_all
next
  assume "first_char (clientkey tgt) = NUL"
  then show "socketverify P E FFUNC_POLL tgt = send_key P E tgt"
    by (rule socketverify_empty_key)
next
  assume a: "first_char (clientkey tgt) = NUL \<and>
      length (shm_key tgt) + 1 < PP_SHMPAGE_SHMKEYLIM P \<and>
      write_rvs E = Written (length (shm_key tgt) + 1) # ws'"
  then have "\<exists>t tr. send_key P E tgt = Some (t, tr) \<and> feed t = Feed_emptyframe \<and>
           sock_written t = sock_written tgt @ shm_key tgt @ [LF]"
    using assms(3) by (intro send_key_written) simp_all
  then obtain t tr where t: "send_key P E tgt = Some (t, tr)" "feed t = Feed_emptyframe"
      "sock_written t = sock_written tgt @ shm_key tgt @ [LF]"
    by auto
  with a assms(1) show "verify_outcome P tgt [E] =
          Some (Feed_emptyframe, sock_written tgt @ shm_key tgt @ [LF])"
    by (simp add: verify_outcome_def socketverify_empty_key)
qed

lemmas verifying_defs = example_verifying_def fresh_frameserver_def example_platform_def
  first_char_def NUL_def LF_def byte_arrives_def

theorem socketverify_key_gate_witness:
  "verify_outcome example_platform example_verifying
     (map (byte_arrives [Written 3]) (''AX'' @ LF # ''Z'')) = Some (Feed_destroyed, []) \<and>
   verify_outcome example_platform example_verifying
     (map (byte_arrives [Written 3]) (''WXYZ'' @ ''12'')) = Some (Feed_destroyed, []) \<and>
   verify_outcome example_platform (example_verifying\<lparr>clientkey := [NUL, NUL, NUL, NUL]\<rparr>)
     [byte_arrives [Written 3] CHR ''x''] = Some (Feed_emptyframe, ''/m'' @ [LF])"
  using socketverify_key_gate [where tgt = example_verifying and P = example_platform
      and pre = "''AX''" and ws = "[Written 3]" and rest = "''Z''"]
    socketverify_key_gate [where tgt = example_verifying and P = example_platform
      and pre = "''WXYZ''" and ws = "[Written 3]" and rest = "''12''"]
    socketverify_key_gate [where tgt = "example_verifying\<lparr>clientkey := [NUL, NUL, NUL, NUL]\<rparr>"
      and P = example_platform and E = "byte_arrives [Written 3] CHR ''x''" and ws' = "[]"]
  by (simp add: verifying_defs)

end
